theory Spec2Isabelle
  imports Main "HOL-Library.Word"
begin

section \<open>Go values, errors and outcomes\<close>

text \<open>
  A Go \<^verbatim>\<open>string\<close> is a sequence of bytes, and so is an Isabelle \<^typ>\<open>string\<close>
  (a list of 8-bit \<^typ>\<open>char\<close>): indexing a string (\<^verbatim>\<open>alphabet[i]\<close>) and the
  conversions \<^verbatim>\<open>string(buff)\<close>, \<^verbatim>\<open>[]byte(s)\<close> move bytes without changing them.
  The random bytes, on which the code computes \<^verbatim>\<open>b % byte(l)\<close>, are 8-bit words.
\<close>

type_synonym byte = "8 word"

text \<open>
  A Go \<^verbatim>\<open>error\<close>: either made by \<^verbatim>\<open>errors.New(msg)\<close> in this package, or handed
  over by a library (the AWS clients, \<^verbatim>\<open>crypto/rand\<close>, \<^verbatim>\<open>crypto/rsa\<close>, \<^verbatim>\<open>x/crypto/ssh\<close>).
\<close>

datatype error = ErrorsNew string | LibraryError string

fun Error :: "error \<Rightarrow> string" where
  "Error (ErrorsNew msg) = msg"
| "Error (LibraryError msg) = msg"

text \<open>
  The dynamic values of \<^verbatim>\<open>interface{}\<close> found in a property bag. \<open>VOther\<close> stands for
  a value of any dynamic type the code never asserts (float64, maps, slices, nil).
\<close>

datatype gvalue = VString string | VInt int | VBool bool | VOther

text \<open>
  \<^verbatim>\<open>v, ok := m[key].(string)\<close>: a missing key gives the nil interface, whose assertion
  fails like that of a value of another type. \<open>None\<close> is \<^verbatim>\<open>ok == false\<close>.
\<close>

fun assert_string :: "gvalue option \<Rightarrow> string option" where
  "assert_string (Some (VString s)) = Some s"
| "assert_string _ = None"

fun assert_int :: "gvalue option \<Rightarrow> int option" where
  "assert_int (Some (VInt i)) = Some i"
| "assert_int _ = None"

text \<open>The two fields of \<^verbatim>\<open>cfn.Event\<close> that the package reads.\<close>

record event =
  ResourceType :: string
  ResourceProperties :: "string \<rightharpoonup> gvalue"

text \<open>Run-time panics of the Go runtime that the code can reach.\<close>

datatype panic = NilPointerDereference | MakeSliceLenOutOfRange | IntegerDivideByZero
  | IndexOutOfRange

datatype 'a outcome = Panic panic | Return 'a

section \<open>The collaborators\<close>

text \<open>
  \<^verbatim>\<open>ssm.PutParameterInput\<close> and \<^verbatim>\<open>ec2.ImportKeyPairInput\<close>, with the fields the code
  fills in. A client is the function from such an input to what
  \<^verbatim>\<open>PutParameterRequest(input)\<close> / \<^verbatim>\<open>ImportKeyPairRequest(input)\<close> followed by
  \<^verbatim>\<open>req.Send()\<close> returns: \<open>None\<close> is the nil error.
\<close>

datatype PutParameterInput =
  PutParameterInput (ssm_Description: string) (ssm_Name: string) (ssm_Type: string)
    (ssm_Value: string) (ssm_Overwrite: bool)

datatype ImportKeyPairInput =
  ImportKeyPairInput (ec2_KeyName: string) (ec2_PublicKeyMaterial: string)

type_synonym SSMAPI = "PutParameterInput \<Rightarrow> error option"
type_synonym EC2API = "ImportKeyPairInput \<Rightarrow> error option"

definition ssm_ParameterTypeSecureString :: string where
  "ssm_ParameterTypeSecureString = ''SecureString''"

text \<open>
  The libraries for randomness and keys are not code of this package. A generated RSA
  key is represented by what the library calls of \<^verbatim>\<open>handleRSAKey\<close> return on it:
  \<^verbatim>\<open>privateKey.Validate()\<close>, \<^verbatim>\<open>ssh.NewPublicKey(&privateKey.PublicKey)\<close> (the error, or
  the public key as the base64 text of its wire form) and the base64 text, in lines, of
  \<^verbatim>\<open>x509.MarshalPKCS1PrivateKey(privateKey)\<close>.
\<close>

datatype rsa_PrivateKey =
  RsaPrivateKey (Validate: "error option") (ssh_NewPublicKey: "error + string")
    (x509_MarshalPKCS1PrivateKey: string)

text \<open>
  \<^verbatim>\<open>pem.EncodeToMemory\<close> of a block without headers frames the base64 lines of the
  bytes between a BEGIN and an END line naming the block type;
  \<^verbatim>\<open>ssh.MarshalAuthorizedKey\<close> of an RSA key writes the key type, a blank, the base64
  text and a newline. Only this framing is modelled; the payloads are parameters.
\<close>

definition pem_EncodeToMemory :: "string \<Rightarrow> string \<Rightarrow> string" where
  "pem_EncodeToMemory blockType body =
     ''-----BEGIN '' @ blockType @ ''-----\<newline>'' @ body @
     ''-----END '' @ blockType @ ''-----\<newline>''"

definition ssh_MarshalAuthorizedKey :: "string \<Rightarrow> string" where
  "ssh_MarshalAuthorizedKey key = ''ssh-rsa '' @ key @ ''\<newline>''"

text \<open>
  The environment of one invocation: whether \<^verbatim>\<open>rand.Read\<close> fails, the bytes it
  delivers otherwise (byte \<open>i\<close> of the buffer is \<open>rand_bytes i\<close>), and the result of
  \<^verbatim>\<open>rsa.GenerateKey(rand.Reader, bits)\<close>.
\<close>

record env =
  rand_error :: "error option"
  rand_bytes :: "nat \<Rightarrow> byte"
  rsa_GenerateKey :: "nat \<Rightarrow> error + rsa_PrivateKey"

definition rand_Read :: "env \<Rightarrow> nat \<Rightarrow> error + byte list" where
  "rand_Read e n =
     (case rand_error e of Some err \<Rightarrow> Inl err | None \<Rightarrow> Inr (map (rand_bytes e) [0..<n]))"

section \<open>The generator, the heap and the trace of effects\<close>

record secretGenerator =
  EC2Client :: EC2API
  SSMClient :: SSMAPI
  Name :: string
  publicKey :: "string option"
  alphabet :: string
  passwordLength :: int
  validationError :: "error option"

record responseSecret =
  KeyLength :: "int option"
  PrivateKey :: "string option"
  PublicKey :: "string option"
  Password :: "string option"

text \<open>
  Every call that leaves the package is recorded: the two collaborators, the random
  source and the key generation.
\<close>

datatype effect =
    SSM_PutParameter PutParameterInput
  | EC2_ImportKeyPair ImportKeyPairInput
  | Rand_Read nat
  | RSA_GenerateKey nat

text \<open>
  The methods have a pointer receiver \<^verbatim>\<open>*secretGenerator\<close>, and \<^verbatim>\<open>handleKeyPair\<close>
  writes through it. A pointer is an address into the list of allocated generators;
  an address outside the list plays the nil pointer, whose dereference panics.
\<close>

type_synonym ptr = nat

record world =
  heap :: "secretGenerator list"
  trace :: "effect list"

definition valid :: "ptr \<Rightarrow> world \<Rightarrow> bool" where
  "valid p w = (p < length (heap w))"

definition deref :: "world \<Rightarrow> ptr \<Rightarrow> secretGenerator" where
  "deref w p = heap w ! p"

definition alloc :: "secretGenerator \<Rightarrow> world \<Rightarrow> ptr \<times> world" where
  "alloc s w = (length (heap w), w\<lparr>heap := heap w @ [s]\<rparr>)"

definition store :: "ptr \<Rightarrow> secretGenerator \<Rightarrow> world \<Rightarrow> world" where
  "store p s w = w\<lparr>heap := (heap w)[p := s]\<rparr>"

definition emit :: "effect \<Rightarrow> world \<Rightarrow> world" where
  "emit x w = w\<lparr>trace := trace w @ [x]\<rparr>"

definition newSecret :: "EC2API \<Rightarrow> SSMAPI \<Rightarrow> world \<Rightarrow> ptr \<times> world" where
  "newSecret ec2Client ssmClient w =
     alloc \<lparr>EC2Client = ec2Client, SSMClient = ssmClient, Name = [], publicKey = None,
            alphabet = [], passwordLength = 0, validationError = None\<rparr> w"

section \<open>validateEvent\<close>

definition default_alphabet :: string where
  "default_alphabet =
     ''0123456789ABCDEFGHIJKLMNOPQRSTUVWXYZabcdefghijklmnopqrstuvwxyz!@#$%^&*()_+-[]?;,.''"

definition missing_Name :: string where
  "missing_Name = ''Missing required property 'Name'' @ [CHR 0x27]"

definition missing_PublicKey :: string where
  "missing_PublicKey = ''Missing required property 'PublicKey'' @ [CHR 0x27]"

text \<open>
  The fresh generator \<open>trg\<close> takes the two clients of the receiver; its other fields are
  assigned in the order of the source. It is allocated when the function returns it:
  nothing reads the heap in between.
\<close>

definition validateEvent :: "ptr \<Rightarrow> event \<Rightarrow> world \<Rightarrow> ptr outcome \<times> world" where
  "validateEvent sg ev w =
     (if \<not> valid sg w then (Panic NilPointerDereference, w)
      else
        let trg = \<lparr>EC2Client = EC2Client (deref w sg), SSMClient = SSMClient (deref w sg),
                   Name = [], publicKey = None, alphabet = [], passwordLength = 0,
                   validationError = None\<rparr>;
            trg = (case assert_string (ResourceProperties ev ''Name'') of
                     None \<Rightarrow> trg\<lparr>validationError := Some (ErrorsNew missing_Name),
                                  Name := ''Unknown''\<rparr>
                   | Some keyName \<Rightarrow> trg\<lparr>Name := keyName\<rparr>);
            trg = (case assert_string (ResourceProperties ev ''PublicKey'') of
                     Some pk \<Rightarrow> trg\<lparr>publicKey := Some pk\<rparr>
                   | None \<Rightarrow> trg);
            trg = (case assert_string (ResourceProperties ev ''Alphabet'') of
                     None \<Rightarrow> trg\<lparr>alphabet := default_alphabet\<rparr>
                   | Some a \<Rightarrow> trg\<lparr>alphabet := a\<rparr>);
            trg = (case assert_int (ResourceProperties ev ''Length'') of
                     None \<Rightarrow> trg\<lparr>passwordLength := 30\<rparr>
                   | Some n \<Rightarrow> trg\<lparr>passwordLength := n\<rparr>);
            (p, w') = alloc trg w
        in (Return p, w'))"

section \<open>The generators\<close>

definition createSSMParameter ::
  "ptr \<Rightarrow> string \<Rightarrow> string \<Rightarrow> string \<Rightarrow> bool \<Rightarrow> world \<Rightarrow> error option outcome \<times> world" where
  "createSSMParameter sg key val description override w =
     (if \<not> valid sg w then (Panic NilPointerDereference, w)
      else case validationError (deref w sg) of
        Some e \<Rightarrow> (Return (Some e), w)
      | None \<Rightarrow>
          let input = PutParameterInput description key ssm_ParameterTypeSecureString val override
          in (Return (SSMClient (deref w sg) input), emit (SSM_PutParameter input) w))"

definition handleRSAKey ::
  "env \<Rightarrow> ptr \<Rightarrow> world \<Rightarrow> (responseSecret option \<times> error option) outcome \<times> world" where
  "handleRSAKey e sg w =
     (if \<not> valid sg w then (Panic NilPointerDereference, w)
      else case validationError (deref w sg) of
        Some err \<Rightarrow> (Return (None, Some err), w)
      | None \<Rightarrow>
          (let keyLength = 2048;
               w1 = emit (RSA_GenerateKey keyLength) w
           in (case rsa_GenerateKey e keyLength of
                 Inl err \<Rightarrow> (Return (None, Some err), w1)
               | Inr privateKey \<Rightarrow>
                   (case Validate privateKey of
                      Some err \<Rightarrow> (Return (None, Some err), w1)
                    | None \<Rightarrow>
                        (case ssh_NewPublicKey privateKey of
                           Inl err \<Rightarrow> (Return (None, Some err), w1)
                         | Inr publicKeyRSA \<Rightarrow>
                             (let resPublicKey = ssh_MarshalAuthorizedKey publicKeyRSA;
                                  resPrivateKey = pem_EncodeToMemory ''RSA PRIVATE KEY''
                                                    (x509_MarshalPKCS1PrivateKey privateKey)
                              in (case createSSMParameter sg (Name (deref w1 sg)) resPrivateKey
                                         ''RSA private key'' False w1 of
                                    (Panic p, w2) \<Rightarrow> (Panic p, w2)
                                  | (Return err, w2) \<Rightarrow>
                                      (Return (Some \<lparr>KeyLength = Some (int keyLength),
                                                      PrivateKey = Some resPrivateKey,
                                                      PublicKey = Some resPublicKey,
                                                      Password = None\<rparr>, err), w2))))))))"

definition handleKeyPair :: "ptr \<Rightarrow> world \<Rightarrow> error option outcome \<times> world" where
  "handleKeyPair sg w =
     (if \<not> valid sg w then (Panic NilPointerDereference, w)
      else case validationError (deref w sg) of
        Some err \<Rightarrow> (Return (Some err), w)
      | None \<Rightarrow>
          (case publicKey (deref w sg) of
             None \<Rightarrow>
               let w1 = store sg ((deref w sg)\<lparr>validationError :=
                                     Some (ErrorsNew missing_PublicKey)\<rparr>) w
               in (Return (validationError (deref w1 sg)), w1)
           | Some pk \<Rightarrow>
               let input = ImportKeyPairInput (Name (deref w sg)) pk
               in (Return (EC2Client (deref w sg) input), emit (EC2_ImportKeyPair input) w)))"

text \<open>
  The loop \<^verbatim>\<open>for i, b := range buff { buff[i] = sg.alphabet[b%byte(l)] }\<close>: \<open>byte(l)\<close>
  keeps the low eight bits of the length, the remainder by zero panics, and so does an
  index outside the alphabet. Each iteration reads and writes position \<open>i\<close> only, so
  the loop is a traversal of the buffer from the left that stops at the first panic.
\<close>

fun password_loop :: "string \<Rightarrow> nat \<Rightarrow> byte list \<Rightarrow> panic + string" where
  "password_loop alph l [] = Inr []"
| "password_loop alph l (b # buff) =
     (if (of_nat l :: byte) = 0 then Inl IntegerDivideByZero
      else let i = unat (b mod of_nat l)
           in if \<not> i < length alph then Inl IndexOutOfRange
              else case password_loop alph l buff of
                     Inl p \<Rightarrow> Inl p
                   | Inr cs \<Rightarrow> Inr (alph ! i # cs))"

definition handlePassword ::
  "env \<Rightarrow> ptr \<Rightarrow> world \<Rightarrow> (responseSecret option \<times> error option) outcome \<times> world" where
  "handlePassword e sg w =
     (if \<not> valid sg w then (Panic NilPointerDereference, w)
      else case validationError (deref w sg) of
        Some err \<Rightarrow> (Return (None, Some err), w)
      | None \<Rightarrow>
          (if passwordLength (deref w sg) < 0 then (Panic MakeSliceLenOutOfRange, w)
           else
             (let n = nat (passwordLength (deref w sg));
                  w1 = emit (Rand_Read n) w
              in (case rand_Read e n of
                    Inl err \<Rightarrow> (Return (None, Some err), w1)
                  | Inr buff \<Rightarrow>
                      (let l = length (alphabet (deref w1 sg))
                       in (case password_loop (alphabet (deref w1 sg)) l buff of
                             Inl p \<Rightarrow> (Panic p, w1)
                           | Inr password \<Rightarrow>
                               (case createSSMParameter sg (Name (deref w1 sg)) password
                                       ''Password'' False w1 of
                                  (Panic p, w2) \<Rightarrow> (Panic p, w2)
                                | (Return err, w2) \<Rightarrow>
                                    (Return (Some \<lparr>KeyLength = None, PrivateKey = None,
                                                    PublicKey = None,
                                                    Password = Some password\<rparr>,
                                             err), w2))))))))"

section \<open>Process\<close>

text \<open>
  The returned \<^verbatim>\<open>data\<close> map has the single key \<^verbatim>\<open>"Response"\<close>; its value is nil
  (\<open>None\<close>) unless the generator returned a response. The identifier reads
  \<^verbatim>\<open>sg.Name\<close> after the generator has run, where \<^verbatim>\<open>sg\<close> is the pointer that
  \<^verbatim>\<open>validateEvent\<close> returned.
\<close>

type_synonym data = "string \<rightharpoonup> responseSecret option"

definition Process ::
  "env \<Rightarrow> ptr \<Rightarrow> event \<Rightarrow> world \<Rightarrow> (string \<times> data \<times> error option) outcome \<times> world" where
  "Process e sg0 ev w =
     (case validateEvent sg0 ev w of
        (Panic p, w1) \<Rightarrow> (Panic p, w1)
      | (Return sg, w1) \<Rightarrow>
          if ResourceType ev = ''Custom::RSAKey'' then
            (case handleRSAKey e sg w1 of
               (Panic p, w2) \<Rightarrow> (Panic p, w2)
             | (Return (response, err), w2) \<Rightarrow>
                 (Return (''RSAKey:'' @ Name (deref w2 sg), [''Response'' \<mapsto> response], err), w2))
          else if ResourceType ev = ''Custom::KeyPair'' then
            (case handleKeyPair sg w1 of
               (Panic p, w2) \<Rightarrow> (Panic p, w2)
             | (Return err, w2) \<Rightarrow>
                 (Return (''KeyPair:'' @ Name (deref w2 sg), [''Response'' \<mapsto> None], err), w2))
          else if ResourceType ev = ''Custom::Password'' then
            (case handlePassword e sg w1 of
               (Panic p, w2) \<Rightarrow> (Panic p, w2)
             | (Return (response, err), w2) \<Rightarrow>
                 (Return (''Password:'' @ Name (deref w2 sg), [''Response'' \<mapsto> response], err), w2))
          else
            (Return (''Unknown:'' @ Name (deref w1 sg), [''Response'' \<mapsto> None],
                     Some (ErrorsNew ''Unknown ResourceType'')), w1))"

section \<open>The validated context as a function of the event\<close>

text \<open>
  What \<^verbatim>\<open>validateEvent\<close> stores in the generator it allocates, field by field. The
  lemma \<open>validateEvent_valid\<close> below proves that the function above computes it.
\<close>

definition context_of :: "secretGenerator \<Rightarrow> event \<Rightarrow> secretGenerator" where
  "context_of s ev =
     \<lparr>EC2Client = EC2Client s, SSMClient = SSMClient s,
      Name = (case assert_string (ResourceProperties ev ''Name'') of
                None \<Rightarrow> ''Unknown'' | Some n \<Rightarrow> n),
      publicKey = assert_string (ResourceProperties ev ''PublicKey''),
      alphabet = (case assert_string (ResourceProperties ev ''Alphabet'') of
                    None \<Rightarrow> default_alphabet | Some a \<Rightarrow> a),
      passwordLength = (case assert_int (ResourceProperties ev ''Length'') of
                          None \<Rightarrow> 30 | Some n \<Rightarrow> n),
      validationError = (case assert_string (ResourceProperties ev ''Name'') of
                           None \<Rightarrow> Some (ErrorsNew missing_Name) | Some n \<Rightarrow> None)\<rparr>"

text \<open>
  The password that \<^verbatim>\<open>handlePassword\<close> builds when its loop does not panic: character
  \<open>i\<close> is the alphabet's byte at the remainder of random byte \<open>i\<close> by \<open>byte(l)\<close>, the
  length of the alphabet reduced modulo 256. The lemma \<open>handlePassword_generates\<close> below
  proves that the generator returns it.
\<close>

definition password_of :: "env \<Rightarrow> secretGenerator \<Rightarrow> string" where
  "password_of e s =
     map (\<lambda>i. alphabet s ! (unat (rand_bytes e i) mod (length (alphabet s) mod 256)))
       [0..<nat (passwordLength s)]"

section \<open>The test doubles of the package and sample inputs\<close>

text \<open>
  The mock clients of the package's tests: each fails with \<open>awsError\<close> for one name
  and succeeds for every other.
\<close>

definition failToImportKeyPair :: string where
  "failToImportKeyPair = ''FAIL_TO_IMPORT''"

definition failToCreateParam :: string where
  "failToCreateParam = ''FAIL_TO_CREATE''"

definition awsError :: error where
  "awsError = LibraryError ''error code: error message''"

definition mockEC2Client :: EC2API where
  "mockEC2Client input =
     (if ec2_KeyName input = failToImportKeyPair then Some awsError else None)"

definition mockSSMClient :: SSMAPI where
  "mockSSMClient input =
     (if ssm_Name input = failToCreateParam then Some awsError else None)"

text \<open>
  A sample environment (a random source that works, a key generation that succeeds) and
  the world of the tests after \<^verbatim>\<open>sg := newSecret(&mockEC2Client{}, &mockSSMClient{})\<close>:
  the generator is at address 0. \<open>context_world ev\<close> is that world after
  \<^verbatim>\<open>sg.validateEvent(ev)\<close>: the validated context is at address 1.
\<close>

definition test_key :: rsa_PrivateKey where
  "test_key = RsaPrivateKey None (Inr ''AAAAB3NzaC1yc2E='') ''MIIEowIBAAKCAQEA\<newline>''"

definition test_env :: env where
  "test_env = \<lparr>rand_error = None, rand_bytes = (\<lambda>i. of_nat (7 * i + 3)),
                rsa_GenerateKey = (\<lambda>bits. Inr test_key)\<rparr>"

definition test_world :: world where
  "test_world = snd (newSecret mockEC2Client mockSSMClient \<lparr>heap = [], trace = []\<rparr>)"

definition context_world :: "event \<Rightarrow> world" where
  "context_world ev = snd (validateEvent 0 ev test_world)"

definition no_Name_event :: event where
  "no_Name_event = \<lparr>ResourceType = ''Custom::RSAKey'', ResourceProperties = Map.empty\<rparr>"

definition abc_event :: event where
  "abc_event =
     \<lparr>ResourceType = ''Custom::Password'',
      ResourceProperties = [''Name'' \<mapsto> VString ''P'', ''Alphabet'' \<mapsto> VString ''abc'',
                            ''Length'' \<mapsto> VInt 5]\<rparr>"


definition empty_alphabet_event :: "int \<Rightarrow> event" where
  "empty_alphabet_event n =
     \<lparr>ResourceType = ''Custom::Password'',
      ResourceProperties = [''Name'' \<mapsto> VString ''P'', ''Alphabet'' \<mapsto> VString [],
                            ''Length'' \<mapsto> VInt n]\<rparr>"

definition K_event :: event where
  "K_event =
     \<lparr>ResourceType = ''Custom::KeyPair'',
      ResourceProperties = [''Name'' \<mapsto> VString ''K'']\<rparr>"

definition bogus_event :: "(string \<rightharpoonup> gvalue) \<Rightarrow> event" where
  "bogus_event props = \<lparr>ResourceType = ''Custom::Bogus'', ResourceProperties = props\<rparr>"

section \<open>Notions used to state the properties\<close>

text \<open>The name that the validator assigns: the Name property if it is a string.\<close>

definition validated_name :: "event \<Rightarrow> string" where
  "validated_name ev =
     (case ResourceProperties ev ''Name'' of Some (VString n) \<Rightarrow> n | _ \<Rightarrow> ''Unknown'')"

text \<open>
  The contexts on which \<^verbatim>\<open>handlePassword\<close> panics: no fault, and either a negative
  length, or bytes delivered for a positive length and an alphabet whose length is a
  multiple of 256. The lemmas \<open>handlePassword_returns\<close> and \<open>handlePassword_panics\<close>
  prove that these are exactly the panics.
\<close>

definition password_panics :: "env \<Rightarrow> secretGenerator \<Rightarrow> bool" where
  "password_panics e s =
     (validationError s = None \<and>
      (passwordLength s < 0 \<or>
       (rand_error e = None \<and> 0 < passwordLength s \<and> length (alphabet s) mod 256 = 0)))"

text \<open>
  A sequence of invocations of \<^verbatim>\<open>Process\<close> on the same generator, each with its own
  environment and event; the world is handed from one to the next.
\<close>

fun invocations :: "(env \<times> event) list \<Rightarrow> ptr \<Rightarrow> world \<Rightarrow> world" where
  "invocations [] sg w = w"
| "invocations ((e, ev) # rest) sg w = invocations rest sg (snd (Process e sg ev w))"

section \<open>Basic facts\<close>

lemma valid_emit [simp]: "valid p (emit x w) = valid p w"
  by (simp add: valid_def emit_def)

lemma deref_emit [simp]: "deref (emit x w) p = deref w p"
  by (simp add: deref_def emit_def)

lemma heap_emit [simp]: "heap (emit x w) = heap w"
  by (simp add: emit_def)

lemma trace_emit [simp]: "trace (emit x w) = trace w @ [x]"
  by (simp add: emit_def)

lemma assert_string_None: "assert_string x = None \<longleftrightarrow> (\<forall>s. x \<noteq> Some (VString s))"
  by (cases x rule: assert_string.cases) simp_all

lemma assert_int_None: "assert_int x = None \<longleftrightarrow> (\<forall>n. x \<noteq> Some (VInt n))"
  by (cases x rule: assert_int.cases) simp_all

lemma validateEvent_valid:
  "valid sg w \<Longrightarrow>
     validateEvent sg ev w =
       (Return (length (heap w)), w\<lparr>heap := heap w @ [context_of (deref w sg) ev]\<rparr>)"
  by (simp add: validateEvent_def context_of_def alloc_def Let_def split: option.splits)

lemma validateEvent_nil:
  "\<not> valid sg w \<Longrightarrow> validateEvent sg ev w = (Panic NilPointerDereference, w)"
  by (simp add: validateEvent_def)

lemma valid_fresh: "valid (length (heap w)) (w\<lparr>heap := heap w @ [s]\<rparr>)"
  by (simp add: valid_def)

lemma deref_fresh: "deref (w\<lparr>heap := heap w @ [s]\<rparr>) (length (heap w)) = s"
  by (simp add: deref_def)

lemma deref_old: "valid p w \<Longrightarrow> deref (w\<lparr>heap := heap w @ [s]\<rparr>) p = deref w p"
  by (simp add: deref_def valid_def nth_append)

subsection \<open>The sample world\<close>

lemma test_world_eq:
  "test_world =
     \<lparr>heap = [\<lparr>EC2Client = mockEC2Client, SSMClient = mockSSMClient, Name = [],
               publicKey = None, alphabet = [], passwordLength = 0,
               validationError = None\<rparr>],
      trace = []\<rparr>"
  by (simp add: test_world_def newSecret_def alloc_def)

lemma valid_test_world: "valid 0 test_world"
  by (simp add: test_world_eq valid_def)

lemma deref_test_world:
  "deref test_world 0 =
     \<lparr>EC2Client = mockEC2Client, SSMClient = mockSSMClient, Name = [], publicKey = None,
      alphabet = [], passwordLength = 0, validationError = None\<rparr>"
  by (simp add: test_world_eq deref_def)

lemma rand_error_test_env: "rand_error test_env = None"
  by (simp add: test_env_def)

lemma context_world_eq:
  "context_world ev = test_world\<lparr>heap := heap test_world @ [context_of (deref test_world 0) ev]\<rparr>"
  by (simp add: context_world_def validateEvent_valid valid_test_world)

lemma valid_context_world: "valid (Suc 0) (context_world ev)"
  by (simp add: context_world_eq test_world_eq valid_def)

lemma deref_context_world: "deref (context_world ev) (Suc 0) = context_of (deref test_world 0) ev"
  by (simp add: context_world_eq test_world_eq deref_def)

lemma trace_context_world: "trace (context_world ev) = []"
  by (simp add: context_world_eq test_world_eq)

lemma no_Name_context:
  "context_of (deref test_world 0) no_Name_event =
     \<lparr>EC2Client = mockEC2Client, SSMClient = mockSSMClient, Name = ''Unknown'',
      publicKey = None, alphabet = default_alphabet, passwordLength = 30,
      validationError = Some (ErrorsNew missing_Name)\<rparr>"
  by (simp add: context_of_def no_Name_event_def deref_test_world)

lemma abc_context:
  "context_of (deref test_world 0) abc_event =
     \<lparr>EC2Client = mockEC2Client, SSMClient = mockSSMClient, Name = ''P'',
               publicKey = None, alphabet = ''abc'', passwordLength = 5,
               validationError = None\<rparr>"
  by (simp add: context_of_def abc_event_def deref_test_world)

lemma upt5: "[0..<5] = [0, 1, 2, 3, 4]"
  by (simp add: upt_rec)

lemma abc_password: "password_of test_env (context_of (deref test_world 0) abc_event) = ''abcab''"
  by (simp add: password_of_def abc_context test_env_def upt5)

lemma empty_alphabet_context:
  "context_of (deref test_world 0) (empty_alphabet_event n) =
     \<lparr>EC2Client = mockEC2Client, SSMClient = mockSSMClient, Name = ''P'',
       publicKey = None, alphabet = [], passwordLength = n,
       validationError = None\<rparr>"
  by (simp add: context_of_def empty_alphabet_event_def deref_test_world)



subsection \<open>The password loop\<close>

lemma byte_of_nat_eq_0: "(of_nat l :: byte) = 0 \<longleftrightarrow> l mod 256 = 0"
proof -
  have "unat (of_nat l :: byte) = l mod 256"
    by (simp add: unat_of_nat)
  then show ?thesis
    by (metis unat_eq_0)
qed

lemma unat_byte_mod: "unat (b mod (of_nat l :: byte)) = unat b mod (l mod 256)"
  by (simp add: unat_mod unat_of_nat)

lemma password_loop_ok:
  "l mod 256 \<noteq> 0 \<Longrightarrow> l \<le> length alph \<Longrightarrow>
     password_loop alph l buff = Inr (map (\<lambda>b. alph ! (unat b mod (l mod 256))) buff)"
proof (induction buff)
  case Nil
  then show ?case by simp
next
  case (Cons b buff)
  have "unat b mod (l mod 256) < l mod 256"
    using Cons.prems(1) by simp
  also have "l mod 256 \<le> l" by simp
  finally have "unat b mod (l mod 256) < length alph"
    using Cons.prems(2) by simp
  with Cons show ?case
    by (simp add: byte_of_nat_eq_0 unat_byte_mod Let_def)
qed

lemma password_loop_zero:
  "l mod 256 = 0 \<Longrightarrow> buff \<noteq> [] \<Longrightarrow> password_loop alph l buff = Inl IntegerDivideByZero"
  by (cases buff) (simp_all add: byte_of_nat_eq_0)

subsection \<open>The generators on a fault-free context\<close>

lemma createSSMParameter_ok:
  "valid sg w \<Longrightarrow> validationError (deref w sg) = None \<Longrightarrow>
     createSSMParameter sg key val description override w =
       (Return (SSMClient (deref w sg)
                  (PutParameterInput description key ''SecureString'' val override)),
        emit (SSM_PutParameter (PutParameterInput description key ''SecureString'' val override)) w)"
  by (simp add: createSSMParameter_def ssm_ParameterTypeSecureString_def Let_def)
lemma handlePassword_generates:
  assumes "valid sg w" and "validationError (deref w sg) = None"
    and "0 \<le> passwordLength (deref w sg)" and "rand_error e = None"
    and "length (alphabet (deref w sg)) mod 256 \<noteq> 0 \<or> passwordLength (deref w sg) = 0"
  shows "handlePassword e sg w =
           (Return (Some \<lparr>KeyLength = None, PrivateKey = None, PublicKey = None,
                           Password = Some (password_of e (deref w sg))\<rparr>,
                    SSMClient (deref w sg)
                      (PutParameterInput ''Password'' (Name (deref w sg)) ''SecureString''
                         (password_of e (deref w sg)) False)),
            emit (SSM_PutParameter
                    (PutParameterInput ''Password'' (Name (deref w sg)) ''SecureString''
                       (password_of e (deref w sg)) False))
              (emit (Rand_Read (nat (passwordLength (deref w sg)))) w))"
proof -
  let ?s = "deref w sg"
  let ?buff = "map (rand_bytes e) [0..<nat (passwordLength ?s)]"
  have loop: "password_loop (alphabet ?s) (length (alphabet ?s)) ?buff = Inr (password_of e ?s)"
  proof (cases "length (alphabet ?s) mod 256 = 0")
    case True
    with assms(5) have "passwordLength ?s = 0" by simp
    then show ?thesis by (simp add: password_of_def)
  next
    case False
    then show ?thesis
      by (simp add: password_loop_ok password_of_def comp_def)
  qed
  have rd: "rand_Read e (nat (passwordLength ?s)) = Inr ?buff"
    using assms(4) by (simp add: rand_Read_def)
  show ?thesis
    using assms(1-3)
    by (simp add: handlePassword_def Let_def rd loop createSSMParameter_ok)
qed

lemma handlePassword_divides_by_zero:
  assumes "valid sg w" and "validationError (deref w sg) = None"
    and "0 < passwordLength (deref w sg)" and "rand_error e = None"
    and "length (alphabet (deref w sg)) mod 256 = 0"
  shows "handlePassword e sg w =
           (Panic IntegerDivideByZero, emit (Rand_Read (nat (passwordLength (deref w sg)))) w)"
proof -
  let ?s = "deref w sg"
  let ?buff = "map (rand_bytes e) [0..<nat (passwordLength ?s)]"
  have "?buff \<noteq> []" using assms(3) by simp
  then have loop: "password_loop (alphabet ?s) (length (alphabet ?s)) ?buff = Inl IntegerDivideByZero"
    using assms(5) by (rule password_loop_zero [rotated])
  have rd: "rand_Read e (nat (passwordLength ?s)) = Inr ?buff"
    using assms(4) by (simp add: rand_Read_def)
  show ?thesis
    using assms(1-3)
    by (simp add: handlePassword_def Let_def rd loop)
qed

lemma handlePassword_negative:
  "valid sg w \<Longrightarrow> validationError (deref w sg) = None \<Longrightarrow> passwordLength (deref w sg) < 0 \<Longrightarrow>
     handlePassword e sg w = (Panic MakeSliceLenOutOfRange, w)"
  by (simp add: handlePassword_def)

lemma handlePassword_rand_fails:
  "valid sg w \<Longrightarrow> validationError (deref w sg) = None \<Longrightarrow> 0 \<le> passwordLength (deref w sg) \<Longrightarrow>
   rand_error e = Some err \<Longrightarrow>
     handlePassword e sg w = (Return (None, Some err), emit (Rand_Read (nat (passwordLength (deref w sg)))) w)"
  by (simp add: handlePassword_def rand_Read_def Let_def)

lemma handleRSAKey_generates:
  assumes "valid sg w" and "validationError (deref w sg) = None"
    and "rsa_GenerateKey e 2048 = Inr k" and "Validate k = None"
    and "ssh_NewPublicKey k = Inr pub"
  shows "handleRSAKey e sg w =
           (Return (Some \<lparr>KeyLength = Some 2048,
                           PrivateKey = Some (pem_EncodeToMemory ''RSA PRIVATE KEY''
                                                (x509_MarshalPKCS1PrivateKey k)),
                           PublicKey = Some (ssh_MarshalAuthorizedKey pub),
                           Password = None\<rparr>,
                    SSMClient (deref w sg)
                      (PutParameterInput ''RSA private key'' (Name (deref w sg)) ''SecureString''
                         (pem_EncodeToMemory ''RSA PRIVATE KEY'' (x509_MarshalPKCS1PrivateKey k))
                         False)),
            emit (SSM_PutParameter
                    (PutParameterInput ''RSA private key'' (Name (deref w sg)) ''SecureString''
                       (pem_EncodeToMemory ''RSA PRIVATE KEY'' (x509_MarshalPKCS1PrivateKey k))
                       False))
              (emit (RSA_GenerateKey 2048) w))"
  using assms by (simp add: handleRSAKey_def Let_def createSSMParameter_ok)

lemma password_of_length: "0 \<le> passwordLength s \<Longrightarrow> int (length (password_of e s)) = passwordLength s"
  by (simp add: password_of_def)

lemma password_of_nth:
  "i < length (password_of e s) \<Longrightarrow>
     password_of e s ! i = alphabet s ! (unat (rand_bytes e i) mod (length (alphabet s) mod 256))"
  by (simp add: password_of_def)

lemma password_of_subset:
  assumes "length (alphabet s) mod 256 \<noteq> 0"
  shows "set (password_of e s) \<subseteq> set (alphabet s)"
proof
  fix c assume "c \<in> set (password_of e s)"
  then obtain i where c: "c = alphabet s ! (unat (rand_bytes e i) mod (length (alphabet s) mod 256))"
    by (auto simp: password_of_def)
  have "unat (rand_bytes e i) mod (length (alphabet s) mod 256) < length (alphabet s) mod 256"
    using assms by simp
  also have "\<dots> \<le> length (alphabet s)" by simp
  finally show "c \<in> set (alphabet s)"
    unfolding c by (rule nth_mem)
qed



lemma K_context:
  "context_of (deref test_world 0) K_event =
     \<lparr>EC2Client = mockEC2Client, SSMClient = mockSSMClient, Name = ''K'',
      publicKey = None, alphabet = default_alphabet, passwordLength = 30,
      validationError = None\<rparr>"
  by (simp add: context_of_def K_event_def deref_test_world)

lemma length_heap_test_world: "length (heap test_world) = Suc 0"
  by (simp add: test_world_eq)

lemma validateEvent_test_world:
  "validateEvent 0 ev test_world = (Return (Suc 0), context_world ev)"
  unfolding context_world_eq
  using validateEvent_valid [OF valid_test_world, of ev]
  by (simp only: length_heap_test_world)

lemma default_alphabet_length: "length default_alphabet = 81"
  by (simp add: default_alphabet_def)

subsection \<open>Frame of the generators\<close>

lemma valid_store [simp]: "valid p (store q s w) = valid p w"
  by (simp add: valid_def store_def)

lemma deref_store_same: "valid p w \<Longrightarrow> deref (store p s w) p = s"
  by (simp add: valid_def store_def deref_def)

lemma trace_store [simp]: "trace (store p s w) = trace w"
  by (simp add: store_def)

lemma createSSMParameter_heap: "heap (snd (createSSMParameter sg k v d ov w)) = heap w"
  by (simp add: createSSMParameter_def Let_def split: option.splits)

lemma handleRSAKey_heap: "heap (snd (handleRSAKey e sg w)) = heap w"
  by (simp add: handleRSAKey_def createSSMParameter_def Let_def
        split: option.splits sum.splits)

lemma handlePassword_heap: "heap (snd (handlePassword e sg w)) = heap w"
  by (simp add: handlePassword_def createSSMParameter_def Let_def
        split: option.splits sum.splits)

lemma handleKeyPair_heap:
  "valid sg w \<Longrightarrow>
     heap (snd (handleKeyPair sg w)) =
       (heap w)[sg := (deref w sg)\<lparr>validationError :=
          (if validationError (deref w sg) = None \<and> publicKey (deref w sg) = None
           then Some (ErrorsNew missing_PublicKey) else validationError (deref w sg))\<rparr>]"
  by (auto simp: handleKeyPair_def Let_def store_def deref_def split: option.splits)

lemma handleKeyPair_nil: "\<not> valid sg w \<Longrightarrow> handleKeyPair sg w = (Panic NilPointerDereference, w)"
  by (simp add: handleKeyPair_def)

lemma handleKeyPair_length: "length (heap (snd (handleKeyPair sg w))) = length (heap w)"
  by (cases "valid sg w") (simp_all add: handleKeyPair_heap handleKeyPair_nil)

lemma handleKeyPair_Name: "Name (deref (snd (handleKeyPair sg w)) sg) = Name (deref w sg)"
  by (cases "valid sg w")
     (simp_all add: handleKeyPair_heap handleKeyPair_nil deref_def valid_def)

lemma handleKeyPair_other:
  "p \<noteq> sg \<Longrightarrow> deref (snd (handleKeyPair sg w)) p = deref w p"
  by (cases "valid sg w")
     (simp_all add: handleKeyPair_heap handleKeyPair_nil deref_def valid_def)

lemma handleRSAKey_deref: "deref (snd (handleRSAKey e sg w)) p = deref w p"
  by (simp add: deref_def handleRSAKey_heap)

lemma handlePassword_deref: "deref (snd (handlePassword e sg w)) p = deref w p"
  by (simp add: deref_def handlePassword_heap)

subsection \<open>Process in terms of the generators\<close>

lemma Name_context_of: "Name (context_of s ev) = validated_name ev"
  by (cases "ResourceProperties ev ''Name''" rule: assert_string.cases)
     (simp_all add: context_of_def validated_name_def)

lemma fst_case_outcome2:
  "fst (case h of (Panic q, w2) \<Rightarrow> (Panic q, w2)
               | (Return (r, err), w2) \<Rightarrow> (Return (f r err w2), w2)) =
   (case fst h of Panic q \<Rightarrow> Panic q | Return (r, err) \<Rightarrow> Return (f r err (snd h)))"
  by (cases h) (auto split: outcome.splits)

lemma snd_case_outcome2:
  "snd (case h of (Panic q, w2) \<Rightarrow> (Panic q, w2)
               | (Return (r, err), w2) \<Rightarrow> (Return (f r err w2), w2)) = snd h"
  by (cases h) (auto split: outcome.splits)

lemma fst_case_outcome1:
  "fst (case h of (Panic q, w2) \<Rightarrow> (Panic q, w2)
               | (Return err, w2) \<Rightarrow> (Return (f err w2), w2)) =
   (case fst h of Panic q \<Rightarrow> Panic q | Return err \<Rightarrow> Return (f err (snd h)))"
  by (cases h) (auto split: outcome.splits)

lemma snd_case_outcome1:
  "snd (case h of (Panic q, w2) \<Rightarrow> (Panic q, w2)
               | (Return err, w2) \<Rightarrow> (Return (f err w2), w2)) = snd h"
  by (cases h) (auto split: outcome.splits)

lemma Process_fst:
  assumes "valid sg w"
  shows "fst (Process e sg ev w) =
     (if ResourceType ev = ''Custom::RSAKey'' then
        (case fst (handleRSAKey e (length (heap w))
                     (w\<lparr>heap := heap w @ [context_of (deref w sg) ev]\<rparr>)) of
           Panic q \<Rightarrow> Panic q
         | Return (r, err) \<Rightarrow>
             Return (''RSAKey:'' @ validated_name ev, [''Response'' \<mapsto> r], err))
      else if ResourceType ev = ''Custom::KeyPair'' then
        (case fst (handleKeyPair (length (heap w))
                     (w\<lparr>heap := heap w @ [context_of (deref w sg) ev]\<rparr>)) of
           Panic q \<Rightarrow> Panic q
         | Return err \<Rightarrow>
             Return (''KeyPair:'' @ validated_name ev, [''Response'' \<mapsto> None], err))
      else if ResourceType ev = ''Custom::Password'' then
        (case fst (handlePassword e (length (heap w))
                     (w\<lparr>heap := heap w @ [context_of (deref w sg) ev]\<rparr>)) of
           Panic q \<Rightarrow> Panic q
         | Return (r, err) \<Rightarrow>
             Return (''Password:'' @ validated_name ev, [''Response'' \<mapsto> r], err))
      else Return (''Unknown:'' @ validated_name ev, [''Response'' \<mapsto> None],
                   Some (ErrorsNew ''Unknown ResourceType'')))"
  using assms
  by (simp add: Process_def validateEvent_valid fst_case_outcome2 fst_case_outcome1
        handleRSAKey_deref handlePassword_deref handleKeyPair_Name deref_fresh Name_context_of
        split: outcome.splits prod.splits)

lemma Process_snd:
  assumes "valid sg w"
  shows "snd (Process e sg ev w) =
     (if ResourceType ev = ''Custom::RSAKey'' then
        snd (handleRSAKey e (length (heap w))
               (w\<lparr>heap := heap w @ [context_of (deref w sg) ev]\<rparr>))
      else if ResourceType ev = ''Custom::KeyPair'' then
        snd (handleKeyPair (length (heap w))
               (w\<lparr>heap := heap w @ [context_of (deref w sg) ev]\<rparr>))
      else if ResourceType ev = ''Custom::Password'' then
        snd (handlePassword e (length (heap w))
               (w\<lparr>heap := heap w @ [context_of (deref w sg) ev]\<rparr>))
      else w\<lparr>heap := heap w @ [context_of (deref w sg) ev]\<rparr>)"
  using assms
  by (simp add: Process_def validateEvent_valid snd_case_outcome2 snd_case_outcome1)

lemma Process_nil: "\<not> valid sg w \<Longrightarrow> Process e sg ev w = (Panic NilPointerDereference, w)"
  by (simp add: Process_def validateEvent_nil)

lemma handleRSAKey_returns:
  "valid sg w \<Longrightarrow> \<exists>r err. fst (handleRSAKey e sg w) = Return (r, err)"
  by (simp add: handleRSAKey_def createSSMParameter_def Let_def
        split: option.splits sum.splits)

lemma handleKeyPair_returns:
  "valid sg w \<Longrightarrow> \<exists>err. fst (handleKeyPair sg w) = Return err"
  by (simp add: handleKeyPair_def Let_def split: option.splits)

lemma handleKeyPair_missing_PublicKey:
  "valid sg w \<Longrightarrow> validationError (deref w sg) = None \<Longrightarrow> publicKey (deref w sg) = None \<Longrightarrow>
     fst (handleKeyPair sg w) = Return (Some (ErrorsNew missing_PublicKey))"
  by (simp add: handleKeyPair_def Let_def deref_store_same)

lemma handlePassword_returns:
  assumes "valid sg w" and "\<not> password_panics e (deref w sg)"
  shows "\<exists>r err. fst (handlePassword e sg w) = Return (r, err)"
proof (cases "validationError (deref w sg)")
  case (Some err)
  with assms(1) show ?thesis by (simp add: handlePassword_def)
next
  case None
  with assms(2) have len: "0 \<le> passwordLength (deref w sg)"
    and rest: "rand_error e \<noteq> None \<or> passwordLength (deref w sg) = 0 \<or>
               length (alphabet (deref w sg)) mod 256 \<noteq> 0"
    by (auto simp: password_panics_def)
  show ?thesis
  proof (cases "rand_error e")
    case (Some err)
    with assms(1) None len show ?thesis
      by (simp add: handlePassword_rand_fails)
  next
    case rnd: None
    with rest have "length (alphabet (deref w sg)) mod 256 \<noteq> 0 \<or> passwordLength (deref w sg) = 0"
      by auto
    with assms(1) None len rnd show ?thesis
      by (simp add: handlePassword_generates)
  qed
qed

lemma handlePassword_panics:
  assumes "valid sg w" and "password_panics e (deref w sg)"
  shows "\<exists>p. fst (handlePassword e sg w) = Panic p"
proof (cases "passwordLength (deref w sg) < 0")
  case True
  with assms show ?thesis
    by (simp add: password_panics_def handlePassword_negative)
next
  case False
  with assms show ?thesis
    by (simp add: password_panics_def handlePassword_divides_by_zero)
qed

lemma Process_fst_test_world:
  "fst (Process e 0 ev test_world) =
     (if ResourceType ev = ''Custom::RSAKey'' then
        (case fst (handleRSAKey e (Suc 0) (context_world ev)) of
           Panic q \<Rightarrow> Panic q
         | Return (r, err) \<Rightarrow>
             Return (''RSAKey:'' @ validated_name ev, [''Response'' \<mapsto> r], err))
      else if ResourceType ev = ''Custom::KeyPair'' then
        (case fst (handleKeyPair (Suc 0) (context_world ev)) of
           Panic q \<Rightarrow> Panic q
         | Return err \<Rightarrow>
             Return (''KeyPair:'' @ validated_name ev, [''Response'' \<mapsto> None], err))
      else if ResourceType ev = ''Custom::Password'' then
        (case fst (handlePassword e (Suc 0) (context_world ev)) of
           Panic q \<Rightarrow> Panic q
         | Return (r, err) \<Rightarrow>
             Return (''Password:'' @ validated_name ev, [''Response'' \<mapsto> r], err))
      else Return (''Unknown:'' @ validated_name ev, [''Response'' \<mapsto> None],
                   Some (ErrorsNew ''Unknown ResourceType'')))"
  unfolding context_world_eq length_heap_test_world [symmetric]
  by (rule Process_fst [OF valid_test_world])

lemma handleRSAKey_no_Name:
  "handleRSAKey e (Suc 0) (context_world no_Name_event) =
     (Return (None, Some (ErrorsNew missing_Name)), context_world no_Name_event)"
  by (simp add: handleRSAKey_def valid_context_world deref_context_world no_Name_context)

lemma handlePassword_abc:
  "fst (handlePassword test_env (Suc 0) (context_world abc_event)) =
     Return (Some \<lparr>KeyLength = None, PrivateKey = None, PublicKey = None,
                   Password = Some ''abcab''\<rparr>, None)"
proof -
  let ?w = "context_world abc_event"
  have "handlePassword test_env (Suc 0) ?w =
           (Return (Some \<lparr>KeyLength = None, PrivateKey = None, PublicKey = None,
                           Password = Some (password_of test_env (deref ?w (Suc 0)))\<rparr>,
                    SSMClient (deref ?w (Suc 0))
                      (PutParameterInput ''Password'' (Name (deref ?w (Suc 0))) ''SecureString''
                         (password_of test_env (deref ?w (Suc 0))) False)),
            emit (SSM_PutParameter
                    (PutParameterInput ''Password'' (Name (deref ?w (Suc 0))) ''SecureString''
                       (password_of test_env (deref ?w (Suc 0))) False))
              (emit (Rand_Read (nat (passwordLength (deref ?w (Suc 0))))) ?w))"
    by (rule handlePassword_generates)
       (simp_all add: valid_context_world deref_context_world abc_context rand_error_test_env)
  then show ?thesis
    by (simp add: deref_context_world abc_password)
       (simp add: abc_context mockSSMClient_def failToCreateParam_def)
qed

lemma handlePassword_empty_alphabet:
  "0 < n \<Longrightarrow>
     fst (handlePassword test_env (Suc 0) (context_world (empty_alphabet_event n))) =
       Panic IntegerDivideByZero"
  by (subst handlePassword_divides_by_zero)
     (simp_all add: valid_context_world deref_context_world empty_alphabet_context
        rand_error_test_env)

subsection \<open>The outcome of a generator depends on the context only\<close>

lemma handleKeyPair_cong:
  "valid p w \<Longrightarrow> valid p' w' \<Longrightarrow> deref w p = deref w' p' \<Longrightarrow>
     fst (handleKeyPair p w) = fst (handleKeyPair p' w')"
  by (simp add: handleKeyPair_def Let_def deref_store_same split: option.splits)

lemma context_of_cong:
  "EC2Client s = EC2Client s' \<Longrightarrow> SSMClient s = SSMClient s' \<Longrightarrow>
     context_of s ev = context_of s' ev"
  by (simp add: context_of_def)

lemma handleRSAKey_cong:
  assumes "valid p w" and "valid p' w'" and "deref w p = deref w' p'"
  shows "fst (handleRSAKey e p w) = fst (handleRSAKey e p' w')"
proof (cases "validationError (deref w p)")
  case (Some err)
  with assms show ?thesis by (simp add: handleRSAKey_def)
next
  case None
  note nf = None
  show ?thesis
  proof (cases "rsa_GenerateKey e 2048")
    case (Inl err)
    with assms nf show ?thesis by (simp add: handleRSAKey_def Let_def)
  next
    case (Inr k)
    note key = Inr
    show ?thesis
    proof (cases "Validate k")
      case (Some err)
      with assms nf key show ?thesis by (simp add: handleRSAKey_def Let_def)
    next
      case None
      note ok = None
      show ?thesis
      proof (cases "ssh_NewPublicKey k")
        case (Inl err)
        with assms nf key ok show ?thesis by (simp add: handleRSAKey_def Let_def)
      next
        case (Inr pub)
        from assms(3) nf have nf': "validationError (deref w' p') = None" by simp
        show ?thesis
          unfolding handleRSAKey_generates [OF assms(1) nf key ok Inr]
            handleRSAKey_generates [OF assms(2) nf' key ok Inr]
          by (simp add: assms(3))
      qed
    qed
  qed
qed

lemma handlePassword_cong:
  assumes "valid p w" and "valid p' w'" and "deref w p = deref w' p'"
  shows "fst (handlePassword e p w) = fst (handlePassword e p' w')"
proof (cases "validationError (deref w p)")
  case (Some err)
  with assms show ?thesis by (simp add: handlePassword_def)
next
  case None
  note nf = None
  from assms(3) nf have nf': "validationError (deref w' p') = None" by simp
  show ?thesis
  proof (cases "passwordLength (deref w p) < 0")
    case True
    with assms(3) have "passwordLength (deref w' p') < 0" by simp
    with True assms(1,2) nf nf' show ?thesis
      by (simp add: handlePassword_negative)
  next
    case False
    then have len: "0 \<le> passwordLength (deref w p)" by simp
    with assms(3) have len': "0 \<le> passwordLength (deref w' p')" by simp
    show ?thesis
    proof (cases "rand_error e")
      case (Some err)
      from handlePassword_rand_fails [OF assms(1) nf len Some]
           handlePassword_rand_fails [OF assms(2) nf' len' Some]
      show ?thesis by simp
    next
      case None
      note rnd = None
      show ?thesis
      proof (cases "length (alphabet (deref w p)) mod 256 \<noteq> 0 \<or> passwordLength (deref w p) = 0")
        case True
        with assms(3) have t': "length (alphabet (deref w' p')) mod 256 \<noteq> 0 \<or>
                                passwordLength (deref w' p') = 0"
          by simp
        show ?thesis
          unfolding handlePassword_generates [OF assms(1) nf len rnd True]
            handlePassword_generates [OF assms(2) nf' len' rnd t']
          by (simp add: assms(3))
      next
        case False
        then have z: "length (alphabet (deref w p)) mod 256 = 0"
          and pos: "0 < passwordLength (deref w p)"
          using len by auto
        from z pos assms(3) have z': "length (alphabet (deref w' p')) mod 256 = 0"
          and pos': "0 < passwordLength (deref w' p')"
          by simp_all
        from handlePassword_divides_by_zero [OF assms(1) nf pos rnd z]
             handlePassword_divides_by_zero [OF assms(2) nf' pos' rnd z']
        show ?thesis by simp
      qed
    qed
  qed
qed

lemma Process_outcome_cong:
  assumes "valid sg w" and "valid sg' w'"
    and "EC2Client (deref w sg) = EC2Client (deref w' sg')"
    and "SSMClient (deref w sg) = SSMClient (deref w' sg')"
  shows "fst (Process e sg ev w) = fst (Process e sg' ev w')"
proof -
  let ?c = "context_of (deref w sg) ev"
  have c: "context_of (deref w' sg') ev = ?c"
    by (rule context_of_cong) (simp_all add: assms(3,4))
  have d: "deref (w\<lparr>heap := heap w @ [?c]\<rparr>) (length (heap w)) =
           deref (w'\<lparr>heap := heap w' @ [?c]\<rparr>) (length (heap w'))"
    by (simp add: deref_fresh)
  note v = valid_fresh [of w ?c] valid_fresh [of w' ?c]
  show ?thesis
    unfolding Process_fst [OF assms(1)] Process_fst [OF assms(2)] c
      handleRSAKey_cong [OF v d] handleKeyPair_cong [OF v d] handlePassword_cong [OF v d]
    by (rule refl)
qed

lemma Process_frame:
  "take (length (heap w)) (heap (snd (Process e sg ev w))) = heap w"
proof (cases "valid sg w")
  case True
  then show ?thesis
    by (simp add: Process_snd handleRSAKey_heap handlePassword_heap
          handleKeyPair_heap [OF valid_fresh])
next
  case False
  then show ?thesis by (simp add: Process_nil)
qed

lemma Process_keeps:
  assumes "valid p w"
  shows "valid p (snd (Process e sg ev w)) \<and> deref (snd (Process e sg ev w)) p = deref w p"
proof -
  let ?h = "heap (snd (Process e sg ev w))"
  have t: "take (length (heap w)) ?h = heap w" by (rule Process_frame)
  then have "length (take (length (heap w)) ?h) = length (heap w)" by simp
  then have len: "length (heap w) \<le> length ?h" by simp
  have "?h ! p = take (length (heap w)) ?h ! p"
    using assms by (simp add: valid_def)
  then have "?h ! p = heap w ! p" by (simp only: t)
  with len assms show ?thesis
    by (simp add: valid_def deref_def)
qed

lemma invocations_keep:
  "valid p w \<Longrightarrow>
     valid p (invocations es sg w) \<and> deref (invocations es sg w) p = deref w p"
proof (induction es arbitrary: w)
  case Nil
  then show ?case by simp
next
  case (Cons x es)
  obtain e ev where x: "x = (e, ev)" by (cases x)
  from Process_keeps [OF Cons.prems, of e sg ev]
  have v: "valid p (snd (Process e sg ev w))"
    and d: "deref (snd (Process e sg ev w)) p = deref w p"
    by simp_all
  from Cons.IH [OF v] d show ?case
    by (simp add: x)
qed

lemma invocations_nil: "\<not> valid sg w \<Longrightarrow> invocations es sg w = w"
proof (induction es)
  case Nil
  then show ?case by simp
next
  case (Cons x es)
  then show ?case by (cases x) (simp add: Process_nil)
qed

section \<open>A recorded fault short-circuits every generator\<close>

text \<open>
  Claim C4. When the validation fault of the context is set, each of the three
  generators (and the parameter-store helper) returns exactly that fault and leaves the
  world as it was: the trace of calls to the parameter store, the key-import client,
  the random source and the key generation is unchanged, so none of them was called.
\<close>

theorem fault_short_circuits_generators:
  assumes "valid sg w" and "validationError (deref w sg) = Some err"
  shows "handleRSAKey e sg w = (Return (None, Some err), w) \<and>
         handleKeyPair sg w = (Return (Some err), w) \<and>
         handlePassword e sg w = (Return (None, Some err), w) \<and>
         createSSMParameter sg key val description override w = (Return (Some err), w) \<and>
         trace (snd (handleRSAKey e sg w)) = trace w \<and>
         trace (snd (handleKeyPair sg w)) = trace w \<and>
         trace (snd (handlePassword e sg w)) = trace w"
  using assms
  by (simp add: handleRSAKey_def handleKeyPair_def handlePassword_def createSSMParameter_def)

text \<open>The theorem at the context validated from an event without a Name.\<close>

theorem fault_short_circuits_generators_witness:
  "valid 1 (context_world no_Name_event) \<and>
   validationError (deref (context_world no_Name_event) 1) = Some (ErrorsNew missing_Name) \<and>
   handleRSAKey test_env 1 (context_world no_Name_event) =
     (Return (None, Some (ErrorsNew missing_Name)), context_world no_Name_event) \<and>
   handleKeyPair 1 (context_world no_Name_event) =
     (Return (Some (ErrorsNew missing_Name)), context_world no_Name_event) \<and>
   handlePassword test_env 1 (context_world no_Name_event) =
     (Return (None, Some (ErrorsNew missing_Name)), context_world no_Name_event) \<and>
   trace (context_world no_Name_event) = []"
proof -
  have v: "valid (Suc 0) (context_world no_Name_event)"
    by (rule valid_context_world)
  have f: "validationError (deref (context_world no_Name_event) (Suc 0)) =
             Some (ErrorsNew missing_Name)"
    by (simp add: deref_context_world no_Name_context)
  from fault_short_circuits_generators [OF v f] v f show ?thesis
    by (simp add: trace_context_world)
qed

section \<open>A failing store write keeps the generated artifact\<close>



section \<open>The generated password\<close>

text \<open>
  Claim C6, amended. On a fault-free context with a password length \<open>L \<ge> 0\<close> and a
  non-empty alphabet \<open>A\<close> of fewer than 256 characters, when the random source delivers
  its bytes, the password generator returns a password of exactly \<open>L\<close> characters, each
  a member of \<open>A\<close>: character \<open>i\<close> is \<open>A[b mod length(A)]\<close> for the random byte \<open>b\<close> at
  position \<open>i\<close>. Exactly \<open>L\<close> random bytes are read, and the password is then written to
  the parameter store.
\<close>

theorem handlePassword_length_and_alphabet:
  assumes "valid sg w" and "validationError (deref w sg) = None"
    and "0 \<le> passwordLength (deref w sg)" and "rand_error e = None"
    and "0 < length (alphabet (deref w sg))" and "length (alphabet (deref w sg)) < 256"
  shows "\<exists>pw err w'.
           handlePassword e sg w =
             (Return (Some \<lparr>KeyLength = None, PrivateKey = None, PublicKey = None,
                             Password = Some pw\<rparr>, err), w') \<and>
           int (length pw) = passwordLength (deref w sg) \<and>
           set pw \<subseteq> set (alphabet (deref w sg)) \<and>
           (\<forall>i < length pw.
              pw ! i = alphabet (deref w sg) !
                         (unat (rand_bytes e i) mod length (alphabet (deref w sg)))) \<and>
           trace w' = trace w @
             [Rand_Read (nat (passwordLength (deref w sg))),
              SSM_PutParameter
                (PutParameterInput ''Password'' (Name (deref w sg)) ''SecureString'' pw False)]"
proof -
  let ?s = "deref w sg"
  let ?pw = "password_of e ?s"
  have m: "length (alphabet ?s) mod 256 = length (alphabet ?s)"
    using assms(6) by simp
  with assms(5) have nz: "length (alphabet ?s) mod 256 \<noteq> 0"
    by simp
  have run: "handlePassword e sg w =
           (Return (Some \<lparr>KeyLength = None, PrivateKey = None, PublicKey = None,
                           Password = Some ?pw\<rparr>,
                    SSMClient ?s (PutParameterInput ''Password'' (Name ?s) ''SecureString'' ?pw False)),
            emit (SSM_PutParameter (PutParameterInput ''Password'' (Name ?s) ''SecureString'' ?pw False))
              (emit (Rand_Read (nat (passwordLength ?s))) w))"
    using assms(1-4) nz by (intro handlePassword_generates) simp_all
  have len: "int (length ?pw) = passwordLength ?s"
    using assms(3) by (rule password_of_length)
  have sub: "set ?pw \<subseteq> set (alphabet ?s)"
    using nz by (rule password_of_subset)
  have idx: "\<forall>i < length ?pw.
      ?pw ! i = alphabet ?s ! (unat (rand_bytes e i) mod length (alphabet ?s))"
    using m by (simp add: password_of_nth)
  have tr: "trace (emit (SSM_PutParameter (PutParameterInput ''Password'' (Name ?s) ''SecureString'' ?pw False))
              (emit (Rand_Read (nat (passwordLength ?s))) w)) = trace w @
             [Rand_Read (nat (passwordLength ?s)),
              SSM_PutParameter (PutParameterInput ''Password'' (Name ?s) ''SecureString'' ?pw False)]"
    by simp
  from run len sub idx tr show ?thesis by blast
qed

text \<open>The theorem at the alphabet \<open>abc\<close> and length 5.\<close>

theorem handlePassword_length_and_alphabet_witness:
  "valid 1 (context_world abc_event) \<and>
   validationError (deref (context_world abc_event) 1) = None \<and>
   0 \<le> passwordLength (deref (context_world abc_event) 1) \<and>
   rand_error test_env = None \<and>
   0 < length (alphabet (deref (context_world abc_event) 1)) \<and>
   length (alphabet (deref (context_world abc_event) 1)) < 256 \<and>
   fst (handlePassword test_env 1 (context_world abc_event)) =
     Return (Some \<lparr>KeyLength = None, PrivateKey = None, PublicKey = None,
                   Password = Some ''abcab''\<rparr>, None)"
proof -
  let ?w = "context_world abc_event"
  have h1: "valid (Suc 0) ?w" by (rule valid_context_world)
  have h2: "validationError (deref ?w (Suc 0)) = None"
    by (simp add: deref_context_world abc_context)
  have h3: "0 \<le> passwordLength (deref ?w (Suc 0))"
    by (simp add: deref_context_world abc_context)
  have h4: "rand_error test_env = None" by (rule rand_error_test_env)
  have h5: "0 < length (alphabet (deref ?w (Suc 0)))"
    by (simp add: deref_context_world abc_context)
  have h6: "length (alphabet (deref ?w (Suc 0))) < 256"
    by (simp add: deref_context_world abc_context)
  from handlePassword_length_and_alphabet [OF h1 h2 h3 h4 h5 h6]
  obtain pw err w' where
    run: "handlePassword test_env (Suc 0) ?w =
            (Return (Some \<lparr>KeyLength = None, PrivateKey = None, PublicKey = None,
                            Password = Some pw\<rparr>, err), w')"
    by blast
  with handlePassword_abc have "pw = ''abcab''" and "err = None"
    by simp_all
  with run h1 h2 h3 h4 h5 h6 show ?thesis
    by simp
qed

text \<open>
  The claim as stated fails: on the fault-free context with the empty alphabet and the
  length 1, over which no password of one character exists, the generator returns no
  password.
\<close>

theorem handlePassword_counterexample:
  "validationError (deref (context_world (empty_alphabet_event 1)) 1) = None \<and>
   passwordLength (deref (context_world (empty_alphabet_event 1)) 1) = 1 \<and>
   alphabet (deref (context_world (empty_alphabet_event 1)) 1) = [] \<and>
   fst (handlePassword test_env 1 (context_world (empty_alphabet_event 1))) =
     Panic IntegerDivideByZero"
  by (simp add: handlePassword_empty_alphabet deref_context_world empty_alphabet_context)

section \<open>Alphabets whose length is a multiple of 256\<close>

text \<open>
  Claim C10, amended. On a fault-free context whose alphabet has a length congruent to
  0 modulo 256 (the empty alphabet included), when the random source delivers its
  bytes: if the password length is at least 1, the remainder by \<open>byte(l) = 0\<close> panics
  with a division by zero, after the random bytes were read and before any write to the
  parameter store; if the password length is 0, the loop body never runs and the
  generator returns the empty password; if it is negative, allocating the buffer
  panics.
\<close>

theorem handlePassword_alphabet_multiple_of_256:
  assumes "valid sg w" and "validationError (deref w sg) = None" and "rand_error e = None"
    and "length (alphabet (deref w sg)) mod 256 = 0"
  shows "(0 < passwordLength (deref w sg) \<longrightarrow>
            handlePassword e sg w =
              (Panic IntegerDivideByZero,
               emit (Rand_Read (nat (passwordLength (deref w sg)))) w)) \<and>
         (passwordLength (deref w sg) = 0 \<longrightarrow>
            fst (handlePassword e sg w) =
              Return (Some \<lparr>KeyLength = None, PrivateKey = None, PublicKey = None,
                            Password = Some []\<rparr>,
                      SSMClient (deref w sg)
                        (PutParameterInput ''Password'' (Name (deref w sg)) ''SecureString''
                           [] False))) \<and>
         (passwordLength (deref w sg) < 0 \<longrightarrow>
            handlePassword e sg w = (Panic MakeSliceLenOutOfRange, w))"
proof (intro conjI impI)
  assume "0 < passwordLength (deref w sg)"
  with assms show "handlePassword e sg w =
      (Panic IntegerDivideByZero, emit (Rand_Read (nat (passwordLength (deref w sg)))) w)"
    by (intro handlePassword_divides_by_zero)
next
  assume z: "passwordLength (deref w sg) = 0"
  then have "password_of e (deref w sg) = []"
    by (simp add: password_of_def)
  moreover have "handlePassword e sg w =
           (Return (Some \<lparr>KeyLength = None, PrivateKey = None, PublicKey = None,
                           Password = Some (password_of e (deref w sg))\<rparr>,
                    SSMClient (deref w sg)
                      (PutParameterInput ''Password'' (Name (deref w sg)) ''SecureString''
                         (password_of e (deref w sg)) False)),
            emit (SSM_PutParameter
                    (PutParameterInput ''Password'' (Name (deref w sg)) ''SecureString''
                       (password_of e (deref w sg)) False))
              (emit (Rand_Read (nat (passwordLength (deref w sg)))) w))"
    using assms z by (intro handlePassword_generates) simp_all
  ultimately show "fst (handlePassword e sg w) =
              Return (Some \<lparr>KeyLength = None, PrivateKey = None, PublicKey = None,
                            Password = Some []\<rparr>,
                      SSMClient (deref w sg)
                        (PutParameterInput ''Password'' (Name (deref w sg)) ''SecureString''
                           [] False))"
    by simp
next
  assume "passwordLength (deref w sg) < 0"
  with assms show "handlePassword e sg w = (Panic MakeSliceLenOutOfRange, w)"
    by (intro handlePassword_negative)
qed

text \<open>The theorem at the empty alphabet, with the lengths 3, 0 and -1.\<close>

theorem handlePassword_alphabet_multiple_of_256_witness:
  "valid 1 (context_world (empty_alphabet_event 3)) \<and>
   validationError (deref (context_world (empty_alphabet_event 3)) 1) = None \<and>
   rand_error test_env = None \<and>
   length (alphabet (deref (context_world (empty_alphabet_event 3)) 1)) mod 256 = 0 \<and>
   0 < passwordLength (deref (context_world (empty_alphabet_event 3)) 1) \<and>
   handlePassword test_env 1 (context_world (empty_alphabet_event 3)) =
     (Panic IntegerDivideByZero, emit (Rand_Read 3) (context_world (empty_alphabet_event 3))) \<and>
   passwordLength (deref (context_world (empty_alphabet_event 0)) 1) = 0 \<and>
   fst (handlePassword test_env 1 (context_world (empty_alphabet_event 0))) =
     Return (Some \<lparr>KeyLength = None, PrivateKey = None, PublicKey = None,
                   Password = Some []\<rparr>, None) \<and>
   passwordLength (deref (context_world (empty_alphabet_event (- 1))) 1) < 0 \<and>
   handlePassword test_env 1 (context_world (empty_alphabet_event (- 1))) =
     (Panic MakeSliceLenOutOfRange, context_world (empty_alphabet_event (- 1)))"
proof -
  have h: "valid (Suc 0) (context_world (empty_alphabet_event n))"
    "validationError (deref (context_world (empty_alphabet_event n)) (Suc 0)) = None"
    "length (alphabet (deref (context_world (empty_alphabet_event n)) (Suc 0))) mod 256 = 0"
    "passwordLength (deref (context_world (empty_alphabet_event n)) (Suc 0)) = n"
    "Name (deref (context_world (empty_alphabet_event n)) (Suc 0)) = ''P''"
    "SSMClient (deref (context_world (empty_alphabet_event n)) (Suc 0)) = mockSSMClient" for n
    by (simp_all add: valid_context_world deref_context_world empty_alphabet_context)
  note t = handlePassword_alphabet_multiple_of_256 [OF h(1) h(2) rand_error_test_env h(3)]
  from t [of 3] t [of 0] t [of "- 1"] show ?thesis
    by (simp add: h rand_error_test_env mockSSMClient_def failToCreateParam_def)
qed

text \<open>
  The claim as stated fails: with the empty alphabet and the password length 0 the
  generator returns the empty password and does not panic.
\<close>

theorem handlePassword_panic_counterexample:
  "validationError (deref (context_world (empty_alphabet_event 0)) 1) = None \<and>
   length (alphabet (deref (context_world (empty_alphabet_event 0)) 1)) mod 256 = 0 \<and>
   fst (handlePassword test_env 1 (context_world (empty_alphabet_event 0))) =
     Return (Some \<lparr>KeyLength = None, PrivateKey = None, PublicKey = None,
                   Password = Some []\<rparr>, None)"
proof -
  let ?w = "context_world (empty_alphabet_event 0)"
  have "handlePassword test_env 1 ?w =
           (Return (Some \<lparr>KeyLength = None, PrivateKey = None, PublicKey = None,
                           Password = Some (password_of test_env (deref ?w 1))\<rparr>,
                    SSMClient (deref ?w 1)
                      (PutParameterInput ''Password'' (Name (deref ?w 1)) ''SecureString''
                         (password_of test_env (deref ?w 1)) False)),
            emit (SSM_PutParameter
                    (PutParameterInput ''Password'' (Name (deref ?w 1)) ''SecureString''
                       (password_of test_env (deref ?w 1)) False))
              (emit (Rand_Read (nat (passwordLength (deref ?w 1)))) ?w))"
    by (rule handlePassword_generates)
       (simp_all add: valid_context_world deref_context_world empty_alphabet_context
          rand_error_test_env)
  then show ?thesis
    by (simp add: deref_context_world empty_alphabet_context password_of_def
          mockSSMClient_def failToCreateParam_def)
qed

section \<open>The validator\<close>

text \<open>
  Claim C5, amended. The validator never fails: on a valid receiver it always returns a
  fresh context. For every property bag in which Name is absent or not a string, whatever
  the resource kind, the context records a fault whose message is exactly
  "Missing required property 'Name'" (with a capital M) and has the name "Unknown".
\<close>

theorem validateEvent_missing_Name:
  assumes "valid sg w"
  shows "fst (validateEvent sg ev w) = Return (length (heap w)) \<and>
         ((\<forall>s. ResourceProperties ev ''Name'' \<noteq> Some (VString s)) \<longrightarrow>
            map_option Error
              (validationError (deref (snd (validateEvent sg ev w)) (length (heap w)))) =
              Some (''Missing required property 'Name'' @ [CHR 0x27]) \<and>
            Name (deref (snd (validateEvent sg ev w)) (length (heap w))) = ''Unknown'')"
  using assms
  by (simp add: validateEvent_valid deref_fresh context_of_def missing_Name_def
        assert_string_None [symmetric])

text \<open>The theorem at the event without properties.\<close>

theorem validateEvent_missing_Name_witness:
  "valid 0 test_world \<and>
   (\<forall>s. ResourceProperties no_Name_event ''Name'' \<noteq> Some (VString s)) \<and>
   fst (validateEvent 0 no_Name_event test_world) = Return 1 \<and>
   map_option Error (validationError (deref (snd (validateEvent 0 no_Name_event test_world)) 1)) =
     Some (''Missing required property 'Name'' @ [CHR 0x27]) \<and>
   Name (deref (snd (validateEvent 0 no_Name_event test_world)) 1) = ''Unknown''"
proof -
  have n: "\<forall>s. ResourceProperties no_Name_event ''Name'' \<noteq> Some (VString s)"
    by (simp add: no_Name_event_def)
  have l: "length (heap test_world) = 1"
    by (simp add: test_world_eq)
  from validateEvent_missing_Name [OF valid_test_world, of no_Name_event] n l
  show ?thesis
    by (simp add: valid_test_world)
qed

text \<open>
  The claim as stated fails: the recorded message is not
  "missing required property 'Name'" with a small m.
\<close>

theorem validateEvent_message_counterexample:
  "fst (validateEvent 0 no_Name_event test_world) = Return 1 \<and>
   map_option Error (validationError (deref (snd (validateEvent 0 no_Name_event test_world)) 1)) \<noteq>
     Some (''missing required property 'Name'' @ [CHR 0x27])"
proof -
  show ?thesis
    by (simp add: validateEvent_test_world deref_context_world no_Name_context missing_Name_def)
qed

text \<open>
  Claim C7, amended. When the Alphabet property is absent or not a string, the validator
  takes the built-in alphabet of exactly 81 characters: the 10 digits, the 26 uppercase
  and the 26 lowercase letters and 19 punctuation characters. When the Length property
  is absent or not an integer, it takes the password length 30.
\<close>

theorem validateEvent_defaults:
  assumes "valid sg w"
  shows "fst (validateEvent sg ev w) = Return (length (heap w)) \<and>
         ((\<forall>s. ResourceProperties ev ''Alphabet'' \<noteq> Some (VString s)) \<longrightarrow>
            alphabet (deref (snd (validateEvent sg ev w)) (length (heap w))) =
              ''0123456789'' @ ''ABCDEFGHIJKLMNOPQRSTUVWXYZ'' @ ''abcdefghijklmnopqrstuvwxyz'' @
              ''!@#$%^&*()_+-[]?;,.'' \<and>
            length (alphabet (deref (snd (validateEvent sg ev w)) (length (heap w)))) = 81) \<and>
         ((\<forall>n. ResourceProperties ev ''Length'' \<noteq> Some (VInt n)) \<longrightarrow>
            passwordLength (deref (snd (validateEvent sg ev w)) (length (heap w))) = 30)"
  using assms
  by (simp add: validateEvent_valid deref_fresh context_of_def default_alphabet_def
        assert_string_None [symmetric] assert_int_None [symmetric])

text \<open>The theorem at the event without properties.\<close>

theorem validateEvent_defaults_witness:
  "valid 0 test_world \<and>
   (\<forall>s. ResourceProperties no_Name_event ''Alphabet'' \<noteq> Some (VString s)) \<and>
   (\<forall>n. ResourceProperties no_Name_event ''Length'' \<noteq> Some (VInt n)) \<and>
   fst (validateEvent 0 no_Name_event test_world) = Return 1 \<and>
   alphabet (deref (snd (validateEvent 0 no_Name_event test_world)) 1) =
     ''0123456789ABCDEFGHIJKLMNOPQRSTUVWXYZabcdefghijklmnopqrstuvwxyz!@#$%^&*()_+-[]?;,.'' \<and>
   length (alphabet (deref (snd (validateEvent 0 no_Name_event test_world)) 1)) = 81 \<and>
   passwordLength (deref (snd (validateEvent 0 no_Name_event test_world)) 1) = 30"
proof -
  have n: "\<forall>s. ResourceProperties no_Name_event ''Alphabet'' \<noteq> Some (VString s)"
    "\<forall>n. ResourceProperties no_Name_event ''Length'' \<noteq> Some (VInt n)"
    by (simp_all add: no_Name_event_def)
  have l: "length (heap test_world) = 1"
    by (simp add: test_world_eq)
  from validateEvent_defaults [OF valid_test_world, of no_Name_event] n l
  show ?thesis
    by (simp add: valid_test_world)
qed

text \<open>The claim as stated fails: the built-in alphabet has 81 characters, not 80.\<close>

theorem default_alphabet_counterexample:
  "fst (validateEvent 0 no_Name_event test_world) = Return 1 \<and>
   length (alphabet (deref (snd (validateEvent 0 no_Name_event test_world)) 1)) = 81 \<and>
   length (alphabet (deref (snd (validateEvent 0 no_Name_event test_world)) 1)) \<noteq> 80"
proof -
  show ?thesis
    by (simp add: validateEvent_test_world deref_context_world no_Name_context
          default_alphabet_length)
qed

section \<open>Who writes the fault field\<close>

text \<open>
  Claim C8, amended. The validator sets the fault on the context it allocates and leaves
  every existing generator as it was. The RSA generator and the password generator never
  write to the heap. The key-pair import leaves a fault that is already set unchanged,
  and writes the field in one case only: when no fault is set and the public key is
  absent, it stores the fault "Missing required property 'PublicKey'" in the context.
\<close>

theorem generators_and_the_fault_field:
  assumes "valid sg w"
  shows "heap (snd (handleRSAKey e sg w)) = heap w \<and>
         heap (snd (handlePassword e sg w)) = heap w \<and>
         validationError (deref (snd (handleKeyPair sg w)) sg) =
           (if validationError (deref w sg) = None \<and> publicKey (deref w sg) = None
            then Some (ErrorsNew missing_PublicKey) else validationError (deref w sg)) \<and>
         (validationError (deref w sg) \<noteq> None \<or> publicKey (deref w sg) \<noteq> None \<longrightarrow>
            heap (snd (handleKeyPair sg w)) = heap w) \<and>
         take (length (heap w)) (heap (snd (validateEvent sg ev w))) = heap w"
proof -
  have kp: "heap (snd (handleKeyPair sg w)) =
       (heap w)[sg := (deref w sg)\<lparr>validationError :=
          (if validationError (deref w sg) = None \<and> publicKey (deref w sg) = None
           then Some (ErrorsNew missing_PublicKey) else validationError (deref w sg))\<rparr>]"
    using assms by (rule handleKeyPair_heap)
  have a: "validationError (deref (snd (handleKeyPair sg w)) sg) =
           (if validationError (deref w sg) = None \<and> publicKey (deref w sg) = None
            then Some (ErrorsNew missing_PublicKey) else validationError (deref w sg))"
    using assms unfolding deref_def kp valid_def by simp
  have b: "validationError (deref w sg) \<noteq> None \<or> publicKey (deref w sg) \<noteq> None \<longrightarrow>
            heap (snd (handleKeyPair sg w)) = heap w"
    unfolding kp by (auto simp: deref_def)
  have c: "take (length (heap w)) (heap (snd (validateEvent sg ev w))) = heap w"
    using assms by (simp add: validateEvent_valid)
  from a b c show ?thesis
    by (simp add: handleRSAKey_heap handlePassword_heap)
qed

text \<open>
  The theorem at a fault-free context without a public key, and at a context with a
  fault.
\<close>

theorem generators_and_the_fault_field_witness:
  "valid 1 (context_world K_event) \<and>
   validationError (deref (context_world K_event) 1) = None \<and>
   publicKey (deref (context_world K_event) 1) = None \<and>
   heap (snd (handleRSAKey test_env 1 (context_world K_event))) = heap (context_world K_event) \<and>
   heap (snd (handlePassword test_env 1 (context_world K_event))) = heap (context_world K_event) \<and>
   validationError (deref (snd (handleKeyPair 1 (context_world K_event))) 1) =
     Some (ErrorsNew missing_PublicKey) \<and>
   valid 1 (context_world no_Name_event) \<and>
   validationError (deref (context_world no_Name_event) 1) = Some (ErrorsNew missing_Name) \<and>
   heap (snd (handleKeyPair 1 (context_world no_Name_event))) = heap (context_world no_Name_event)"
proof -
  have v: "valid (Suc 0) (context_world ev)" for ev
    by (rule valid_context_world)
  from generators_and_the_fault_field [OF v [of K_event], where e = test_env and ev = K_event]
       generators_and_the_fault_field [OF v [of no_Name_event], where e = test_env
         and ev = K_event]
  show ?thesis
    by (simp add: v deref_context_world K_context no_Name_context)
qed

text \<open>
  The claim as stated fails: on the fault-free context of a key pair named K without a
  public key, the fault field after the import differs from the field before.
\<close>

theorem handleKeyPair_writes_fault_counterexample:
  "validationError (deref (context_world K_event) 1) = None \<and>
   validationError (deref (snd (handleKeyPair 1 (context_world K_event))) 1) =
     Some (ErrorsNew missing_PublicKey) \<and>
   validationError (deref (snd (handleKeyPair 1 (context_world K_event))) 1) \<noteq>
     validationError (deref (context_world K_event) 1)"
proof -
  have "heap (snd (handleKeyPair (Suc 0) (context_world K_event))) =
       (heap (context_world K_event))[Suc 0 := (deref (context_world K_event) (Suc 0))\<lparr>validationError :=
          (if validationError (deref (context_world K_event) (Suc 0)) = None \<and>
              publicKey (deref (context_world K_event) (Suc 0)) = None
           then Some (ErrorsNew missing_PublicKey)
           else validationError (deref (context_world K_event) (Suc 0)))\<rparr>]"
    by (rule handleKeyPair_heap) (rule valid_context_world)
  then have "validationError (deref (snd (handleKeyPair (Suc 0) (context_world K_event))) (Suc 0)) =
     Some (ErrorsNew missing_PublicKey)"
    using valid_context_world [of K_event]
    by (simp add: deref_def [of "snd _"] valid_def deref_context_world K_context)
  then show ?thesis
    by (simp add: deref_context_world K_context)
qed

section \<open>The resource identifier\<close>

text \<open>
  Claim C2, amended. For every request whose resource kind is none of Custom::RSAKey,
  Custom::KeyPair and Custom::Password, Process returns the error "Unknown ResourceType",
  no response, and the identifier "Unknown:" followed by the validated name: the Name
  property when it is a string, and "Unknown" (so "Unknown:Unknown") when it is absent
  or not a string. No collaborator is called.
\<close>

theorem Process_unknown_kind:
  assumes "valid sg w"
    and "ResourceType ev \<noteq> ''Custom::RSAKey''" and "ResourceType ev \<noteq> ''Custom::KeyPair''"
    and "ResourceType ev \<noteq> ''Custom::Password''"
  shows "(ResourceProperties ev ''Name'' = Some (VString n) \<longrightarrow>
            fst (Process e sg ev w) =
              Return (''Unknown:'' @ n, [''Response'' \<mapsto> None],
                      Some (ErrorsNew ''Unknown ResourceType''))) \<and>
         ((\<forall>s. ResourceProperties ev ''Name'' \<noteq> Some (VString s)) \<longrightarrow>
            fst (Process e sg ev w) =
              Return (''Unknown:Unknown'', [''Response'' \<mapsto> None],
                      Some (ErrorsNew ''Unknown ResourceType''))) \<and>
         trace (snd (Process e sg ev w)) = trace w"
proof -
  have 1: "fst (Process e sg ev w) =
             Return (''Unknown:'' @ validated_name ev, [''Response'' \<mapsto> None],
                     Some (ErrorsNew ''Unknown ResourceType''))"
    using assms by (simp add: Process_fst)
  have 2: "ResourceProperties ev ''Name'' = Some (VString n) \<longrightarrow> validated_name ev = n"
    by (simp add: validated_name_def)
  have 3: "(\<forall>s. ResourceProperties ev ''Name'' \<noteq> Some (VString s)) \<longrightarrow>
             validated_name ev = ''Unknown''"
    by (auto simp: validated_name_def split: option.splits gvalue.splits)
  have 4: "trace (snd (Process e sg ev w)) = trace w"
    using assms by (simp add: Process_snd)
  from 1 2 3 4 show ?thesis by simp
qed

text \<open>The theorem at an unknown kind, with the name foo and without a name.\<close>

theorem Process_unknown_kind_witness:
  "valid 0 test_world \<and>
   ResourceType (bogus_event [''Name'' \<mapsto> VString ''foo'']) \<noteq> ''Custom::RSAKey'' \<and>
   ResourceType (bogus_event [''Name'' \<mapsto> VString ''foo'']) \<noteq> ''Custom::KeyPair'' \<and>
   ResourceType (bogus_event [''Name'' \<mapsto> VString ''foo'']) \<noteq> ''Custom::Password'' \<and>
   ResourceProperties (bogus_event [''Name'' \<mapsto> VString ''foo'']) ''Name'' =
     Some (VString ''foo'') \<and>
   fst (Process test_env 0 (bogus_event [''Name'' \<mapsto> VString ''foo'']) test_world) =
     Return (''Unknown:foo'', [''Response'' \<mapsto> None],
             Some (ErrorsNew ''Unknown ResourceType'')) \<and>
   (\<forall>s. ResourceProperties (bogus_event Map.empty) ''Name'' \<noteq> Some (VString s)) \<and>
   fst (Process test_env 0 (bogus_event Map.empty) test_world) =
     Return (''Unknown:Unknown'', [''Response'' \<mapsto> None],
             Some (ErrorsNew ''Unknown ResourceType''))"
proof -
  have k: "ResourceType (bogus_event props) \<noteq> ''Custom::RSAKey''"
    "ResourceType (bogus_event props) \<noteq> ''Custom::KeyPair''"
    "ResourceType (bogus_event props) \<noteq> ''Custom::Password''" for props
    by (simp_all add: bogus_event_def)
  note t = Process_unknown_kind [OF valid_test_world k, where e = test_env]
  have a: "ResourceProperties (bogus_event [''Name'' \<mapsto> VString ''foo'']) ''Name'' =
     Some (VString ''foo'')"
    by (simp add: bogus_event_def)
  have b: "\<forall>s. ResourceProperties (bogus_event Map.empty) ''Name'' \<noteq> Some (VString s)"
    by (simp add: bogus_event_def)
  from t [of "[''Name'' \<mapsto> VString ''foo'']" "''foo''"] a
  have "fst (Process test_env 0 (bogus_event [''Name'' \<mapsto> VString ''foo'']) test_world) =
     Return (''Unknown:foo'', [''Response'' \<mapsto> None],
             Some (ErrorsNew ''Unknown ResourceType''))"
    by simp
  moreover from t [of Map.empty] b
  have "fst (Process test_env 0 (bogus_event Map.empty) test_world) =
     Return (''Unknown:Unknown'', [''Response'' \<mapsto> None],
             Some (ErrorsNew ''Unknown ResourceType''))"
    by simp
  ultimately show ?thesis
    using k a b valid_test_world by simp
qed

text \<open>
  The claim as stated fails: with the name foo the identifier is "Unknown:foo", not
  "Unknown:Unknown".
\<close>

theorem Process_unknown_kind_counterexample:
  "fst (Process test_env 0 (bogus_event [''Name'' \<mapsto> VString ''foo'']) test_world) =
     Return (''Unknown:foo'', [''Response'' \<mapsto> None],
             Some (ErrorsNew ''Unknown ResourceType'')) \<and>
   fst (Process test_env 0 (bogus_event [''Name'' \<mapsto> VString ''foo'']) test_world) \<noteq>
     Return (''Unknown:Unknown'', [''Response'' \<mapsto> None],
             Some (ErrorsNew ''Unknown ResourceType''))"
  by (simp add: Process_fst valid_test_world bogus_event_def validated_name_def)

text \<open>
  Claim C1, amended. For the kinds Custom::RSAKey and Custom::KeyPair, Process always
  returns, and for Custom::Password it returns unless the password generator panics
  (and then Process panics); whenever it returns for a recognized kind, also when the
  generator returned an error, the identifier is the kind without its Custom:: prefix,
  a colon and the validated name. In particular Custom::KeyPair with the Name "K" and
  no PublicKey yields the identifier "KeyPair:K" and an error whose message is
  "Missing required property 'PublicKey'" (with a capital M).
\<close>

theorem Process_identifier:
  assumes "valid sg w"
  shows "(ResourceType ev = ''Custom::RSAKey'' \<longrightarrow>
            (\<exists>d err. fst (Process e sg ev w) =
                       Return (''RSAKey:'' @ validated_name ev, d, err))) \<and>
         (ResourceType ev = ''Custom::KeyPair'' \<longrightarrow>
            (\<exists>d err. fst (Process e sg ev w) =
                       Return (''KeyPair:'' @ validated_name ev, d, err))) \<and>
         (ResourceType ev = ''Custom::Password'' \<and>
          \<not> password_panics e (context_of (deref w sg) ev) \<longrightarrow>
            (\<exists>d err. fst (Process e sg ev w) =
                       Return (''Password:'' @ validated_name ev, d, err))) \<and>
         (ResourceType ev = ''Custom::Password'' \<and>
          password_panics e (context_of (deref w sg) ev) \<longrightarrow>
            (\<exists>p. fst (Process e sg ev w) = Panic p)) \<and>
         (ResourceType ev = ''Custom::KeyPair'' \<and>
          ResourceProperties ev ''Name'' = Some (VString ''K'') \<and>
          (\<forall>s. ResourceProperties ev ''PublicKey'' \<noteq> Some (VString s)) \<longrightarrow>
            (\<exists>err. fst (Process e sg ev w) =
                     Return (''KeyPair:K'', [''Response'' \<mapsto> None], Some err) \<and>
                   Error err = ''Missing required property 'PublicKey'' @ [CHR 0x27]))"
proof -
  let ?p = "length (heap w)"
  let ?w1 = "w\<lparr>heap := heap w @ [context_of (deref w sg) ev]\<rparr>"
  have v: "valid ?p ?w1" by (rule valid_fresh)
  have d: "deref ?w1 ?p = context_of (deref w sg) ev" by (rule deref_fresh)
  have rsa: "ResourceType ev = ''Custom::RSAKey'' \<longrightarrow>
            (\<exists>d err. fst (Process e sg ev w) =
                       Return (''RSAKey:'' @ validated_name ev, d, err))"
    using handleRSAKey_returns [OF v, of e] assms
    by (auto simp: Process_fst)
  have kp: "ResourceType ev = ''Custom::KeyPair'' \<longrightarrow>
            (\<exists>d err. fst (Process e sg ev w) =
                       Return (''KeyPair:'' @ validated_name ev, d, err))"
    using handleKeyPair_returns [OF v] assms
    by (auto simp: Process_fst)
  have pw: "ResourceType ev = ''Custom::Password'' \<and>
          \<not> password_panics e (context_of (deref w sg) ev) \<longrightarrow>
            (\<exists>d err. fst (Process e sg ev w) =
                       Return (''Password:'' @ validated_name ev, d, err))"
  proof
    assume a: "ResourceType ev = ''Custom::Password'' \<and>
          \<not> password_panics e (context_of (deref w sg) ev)"
    then have "\<not> password_panics e (deref ?w1 ?p)" by (simp add: d)
    from handlePassword_returns [OF v this] a assms
    show "\<exists>d err. fst (Process e sg ev w) =
                       Return (''Password:'' @ validated_name ev, d, err)"
      by (auto simp: Process_fst)
  qed
  have pp: "ResourceType ev = ''Custom::Password'' \<and>
          password_panics e (context_of (deref w sg) ev) \<longrightarrow>
            (\<exists>p. fst (Process e sg ev w) = Panic p)"
  proof
    assume a: "ResourceType ev = ''Custom::Password'' \<and>
          password_panics e (context_of (deref w sg) ev)"
    then have "password_panics e (deref ?w1 ?p)" by (simp add: d)
    from handlePassword_panics [OF v this] a assms
    show "\<exists>p. fst (Process e sg ev w) = Panic p"
      by (auto simp: Process_fst)
  qed
  have k: "ResourceType ev = ''Custom::KeyPair'' \<and>
          ResourceProperties ev ''Name'' = Some (VString ''K'') \<and>
          (\<forall>s. ResourceProperties ev ''PublicKey'' \<noteq> Some (VString s)) \<longrightarrow>
            (\<exists>err. fst (Process e sg ev w) =
                     Return (''KeyPair:K'', [''Response'' \<mapsto> None], Some err) \<and>
                   Error err = ''Missing required property 'PublicKey'' @ [CHR 0x27])"
  proof
    assume a: "ResourceType ev = ''Custom::KeyPair'' \<and>
          ResourceProperties ev ''Name'' = Some (VString ''K'') \<and>
          (\<forall>s. ResourceProperties ev ''PublicKey'' \<noteq> Some (VString s))"
    then have "validationError (deref ?w1 ?p) = None" "publicKey (deref ?w1 ?p) = None"
      unfolding d by (simp_all add: context_of_def assert_string_None)
    from handleKeyPair_missing_PublicKey [OF v this] a assms
    have "fst (Process e sg ev w) =
            Return (''KeyPair:K'', [''Response'' \<mapsto> None],
                    Some (ErrorsNew missing_PublicKey))"
      by (simp add: Process_fst validated_name_def)
    then show "\<exists>err. fst (Process e sg ev w) =
                     Return (''KeyPair:K'', [''Response'' \<mapsto> None], Some err) \<and>
                   Error err = ''Missing required property 'PublicKey'' @ [CHR 0x27]"
      by (simp add: missing_PublicKey_def)
  qed
  from rsa kp pw pp k show ?thesis by blast
qed

text \<open>
  The claim as stated fails: for the key pair K without a public key the message of the
  error is not "missing required property 'PublicKey'" with a small m.
\<close>

theorem Process_identifier_counterexample:
  "fst (Process test_env 0 K_event test_world) =
     Return (''KeyPair:K'', [''Response'' \<mapsto> None],
             Some (ErrorsNew (''Missing required property 'PublicKey'' @ [CHR 0x27]))) \<and>
   Error (ErrorsNew (''Missing required property 'PublicKey'' @ [CHR 0x27])) \<noteq>
     ''missing required property 'PublicKey'' @ [CHR 0x27]"
proof -
  have "fst (handleKeyPair (Suc 0) (context_world K_event)) =
        Return (Some (ErrorsNew missing_PublicKey))"
    by (rule handleKeyPair_missing_PublicKey [OF valid_context_world])
       (simp_all add: deref_context_world K_context)
  then have "fst (Process test_env 0 K_event test_world) =
     Return (''KeyPair:'' @ validated_name K_event, [''Response'' \<mapsto> None],
             Some (ErrorsNew missing_PublicKey))"
    by (simp add: Process_fst_test_world K_event_def)
  then show ?thesis
    by (simp add: validated_name_def K_event_def missing_PublicKey_def)
qed

text \<open>
  The theorem at one event of each recognized kind, and at a password event on which
  the generator panics.
\<close>

theorem Process_identifier_witness:
  "valid 0 test_world \<and>
   ResourceType no_Name_event = ''Custom::RSAKey'' \<and>
   fst (Process test_env 0 no_Name_event test_world) =
     Return (''RSAKey:Unknown'', [''Response'' \<mapsto> None], Some (ErrorsNew missing_Name)) \<and>
   ResourceType K_event = ''Custom::KeyPair'' \<and>
   ResourceProperties K_event ''Name'' = Some (VString ''K'') \<and>
   (\<forall>s. ResourceProperties K_event ''PublicKey'' \<noteq> Some (VString s)) \<and>
   fst (Process test_env 0 K_event test_world) =
     Return (''KeyPair:K'', [''Response'' \<mapsto> None], Some (ErrorsNew missing_PublicKey)) \<and>
   ResourceType abc_event = ''Custom::Password'' \<and>
   \<not> password_panics test_env (context_of (deref test_world 0) abc_event) \<and>
   fst (Process test_env 0 abc_event test_world) =
     Return (''Password:P'',
             [''Response'' \<mapsto> Some \<lparr>KeyLength = None, PrivateKey = None, PublicKey = None,
                                       Password = Some ''abcab''\<rparr>], None) \<and>
   ResourceType (empty_alphabet_event 3) = ''Custom::Password'' \<and>
   password_panics test_env (context_of (deref test_world 0) (empty_alphabet_event 3)) \<and>
   fst (Process test_env 0 (empty_alphabet_event 3) test_world) = Panic IntegerDivideByZero"
proof -
  note t = Process_identifier [OF valid_test_world, where e = test_env]
  have r0: "ResourceType no_Name_event = ''Custom::RSAKey''"
    by (simp add: no_Name_event_def)
  have k0: "ResourceType K_event = ''Custom::KeyPair'' \<and>
            ResourceProperties K_event ''Name'' = Some (VString ''K'') \<and>
            (\<forall>s. ResourceProperties K_event ''PublicKey'' \<noteq> Some (VString s))"
    by (simp add: K_event_def)
  have p0: "ResourceType abc_event = ''Custom::Password'' \<and>
            \<not> password_panics test_env (context_of (deref test_world 0) abc_event)"
    by (simp add: abc_event_def password_panics_def abc_context [unfolded abc_event_def])
  have q0: "ResourceType (empty_alphabet_event 3) = ''Custom::Password'' \<and>
            password_panics test_env (context_of (deref test_world 0) (empty_alphabet_event 3))"
    by (simp add: empty_alphabet_event_def password_panics_def rand_error_test_env
          empty_alphabet_context [unfolded empty_alphabet_event_def])
  have vn: "validated_name no_Name_event = ''Unknown''" "validated_name K_event = ''K''"
    "validated_name abc_event = ''P''"
    by (simp_all add: validated_name_def no_Name_event_def K_event_def abc_event_def)
  from t [of no_Name_event] r0 obtain d1 e1 where
    a1: "fst (Process test_env 0 no_Name_event test_world) = Return (''RSAKey:Unknown'', d1, e1)"
    by (auto simp: vn)
  have b1: "fst (Process test_env 0 no_Name_event test_world) =
     Return (''RSAKey:Unknown'', [''Response'' \<mapsto> None], Some (ErrorsNew missing_Name))"
    by (simp add: Process_fst_test_world r0 vn handleRSAKey_no_Name)
  from t [of K_event] k0 obtain e2 where
    a2: "fst (Process test_env 0 K_event test_world) =
           Return (''KeyPair:K'', [''Response'' \<mapsto> None], Some e2)"
    and m2: "Error e2 = ''Missing required property 'PublicKey'' @ [CHR 0x27]"
    by blast
  have b2: "fst (Process test_env 0 K_event test_world) =
     Return (''KeyPair:K'', [''Response'' \<mapsto> None], Some (ErrorsNew missing_PublicKey))"
    using handleKeyPair_missing_PublicKey [OF valid_context_world [of K_event]] k0
    by (simp add: Process_fst_test_world vn deref_context_world K_context)
  from t [of abc_event] p0 obtain d3 e3 where
    a3: "fst (Process test_env 0 abc_event test_world) = Return (''Password:P'', d3, e3)"
    by (auto simp: vn)
  have b3: "fst (Process test_env 0 abc_event test_world) =
     Return (''Password:P'',
             [''Response'' \<mapsto> Some \<lparr>KeyLength = None, PrivateKey = None, PublicKey = None,
                                       Password = Some ''abcab''\<rparr>], None)"
    using p0 by (simp add: Process_fst_test_world vn handlePassword_abc)
  from t [of "empty_alphabet_event 3"] q0 obtain p4 where
    a4: "fst (Process test_env 0 (empty_alphabet_event 3) test_world) = Panic p4"
    by blast
  have b4: "fst (Process test_env 0 (empty_alphabet_event 3) test_world) = Panic IntegerDivideByZero"
    using q0 by (simp add: Process_fst_test_world handlePassword_empty_alphabet)
  from a1 a2 a3 a4 b1 b2 b3 b4 r0 k0 p0 q0 valid_test_world show ?thesis
    by simp
qed

section \<open>Invocations are independent\<close>

text \<open>
  Claim C9. Process never changes the generator it is invoked on: validation allocates
  a fresh context, and every generator that existed before the invocation, the receiver
  included, is the same afterwards, also when the invocation panics. Hence, after any
  sequence of invocations on the same generator, the receiver is as it was at the start
  and the outcome of a further invocation is the outcome it would have had as the
  first one: a fault recorded in one invocation never reaches a later one.
\<close>

theorem Process_leaves_generator:
  "take (length (heap w)) (heap (snd (Process e sg ev w))) = heap w \<and>
   deref (snd (Process e sg ev w)) sg = deref w sg \<and>
   deref (invocations es sg w) sg = deref w sg \<and>
   fst (Process e sg ev (invocations es sg w)) = fst (Process e sg ev w)"
proof (cases "valid sg w")
  case True
  from invocations_keep [OF True, of es sg]
  have v: "valid sg (invocations es sg w)"
    and d: "deref (invocations es sg w) sg = deref w sg"
    by simp_all
  have "fst (Process e sg ev (invocations es sg w)) = fst (Process e sg ev w)"
    using v True by (rule Process_outcome_cong) (simp_all add: d)
  with d Process_keeps [OF True, of e sg ev] show ?thesis
    by (simp add: Process_frame)
next
  case False
  then show ?thesis
    by (simp add: Process_nil invocations_nil)
qed

text \<open>
  The theorem after an invocation without a Name and one without a public key, both of
  which record a fault in their own context.
\<close>

theorem Process_leaves_generator_witness:
  "validationError (deref (snd (Process test_env 0 no_Name_event test_world)) 1) =
     Some (ErrorsNew missing_Name) \<and>
   deref (snd (Process test_env 0 no_Name_event test_world)) 0 = deref test_world 0 \<and>
   validationError (deref (invocations [(test_env, no_Name_event), (test_env, K_event)] 0 test_world) 0) =
     None \<and>
   fst (Process test_env 0 abc_event
          (invocations [(test_env, no_Name_event), (test_env, K_event)] 0 test_world)) =
     Return (''Password:P'',
             [''Response'' \<mapsto> Some \<lparr>KeyLength = None, PrivateKey = None, PublicKey = None,
                                       Password = Some ''abcab''\<rparr>], None)"
proof -
  note t = Process_leaves_generator [of test_world test_env 0 _
             "[(test_env, no_Name_event), (test_env, K_event)]"]
  have a: "snd (Process test_env 0 no_Name_event test_world) = context_world no_Name_event"
    unfolding Process_snd [OF valid_test_world] context_world_eq
    by (simp add: no_Name_event_def handleRSAKey_heap valid_fresh handleRSAKey_def deref_fresh
          context_of_def)
  have b: "fst (Process test_env 0 abc_event test_world) =
     Return (''Password:P'',
             [''Response'' \<mapsto> Some \<lparr>KeyLength = None, PrivateKey = None, PublicKey = None,
                                       Password = Some ''abcab''\<rparr>], None)"
    by (simp add: Process_fst_test_world handlePassword_abc)
       (simp add: abc_event_def validated_name_def)
  have c: "validationError (deref (context_world no_Name_event) (Suc 0)) =
             Some (ErrorsNew missing_Name)"
    by (simp add: deref_context_world no_Name_context)
  have d: "validationError (deref test_world 0) = None"
    by (simp add: deref_test_world)
  from t [of no_Name_event] t [of abc_event] a b c d show ?thesis
    by simp
qed

end
